theory Spec2Isabelle
  imports Complex_Main "HOL-Library.Word"
begin

unbundle bit_operations_syntax

section \<open>The GD-ROM controller of src/guest/gdrom/gdrom.c\<close>

text \<open>
  The controller is a C struct mutated in place by every entry point. The model passes
  the struct as a record and returns the updated record. Every way the C code stops
  (\<^verbatim>\<open>LOG_FATAL\<close>, a failed \<^verbatim>\<open>CHECK\<close>) is a value of \<open>failure\<close>, and so is a block copy
  that leaves its object, which C leaves undefined. C \<^verbatim>\<open>int\<close>s are \<open>int\<close>. The sector
  counts and addresses come from 24-bit packet fields and the sizes are bounded by the
  buffers, so they stay far below \<open>2 ^ 31\<close>. The head of the PIO buffer is the exception:
  it grows by 2 with every access of the data register, and the model goes on counting
  where a C \<^verbatim>\<open>int\<close> would overflow. Bytes are \<open>8 word\<close>.
\<close>

type_synonym u8 = "8 word"

datatype failure =
    LOG_FATAL
  | CHECK_cb
  | CHECK_size
  | CHECK_LE_read
  | CHECK_GT_n
  | CHECK_NOTNULL_disc
  | CHECK_GE_size
  | CHECK_EQ_sizeof
  | CHECK_dma_size
  | OUT_OF_BOUNDS

subsection \<open>The state machine's enumerations and its table\<close>

datatype gd_event =
    EVENT_ATA_CMD
  | EVENT_PIO_WRITE
  | EVENT_SPI_CMD
  | EVENT_PIO_READ
  | EVENT_SPI_DATA

datatype gd_state =
    STATE_READ_ATA_CMD
  | STATE_READ_ATA_DATA
  | STATE_READ_SPI_DATA
  | STATE_WRITE_SPI_DATA
  | STATE_WRITE_DMA_DATA

text \<open>The enumerators' values: the row and column of the table.\<close>

fun event_index :: "gd_event \<Rightarrow> nat" where
  "event_index EVENT_ATA_CMD = 0"
| "event_index EVENT_PIO_WRITE = 1"
| "event_index EVENT_SPI_CMD = 2"
| "event_index EVENT_PIO_READ = 3"
| "event_index EVENT_SPI_DATA = 4"

fun state_index :: "gd_state \<Rightarrow> nat" where
  "state_index STATE_READ_ATA_CMD = 0"
| "state_index STATE_READ_ATA_DATA = 1"
| "state_index STATE_READ_SPI_DATA = 2"
| "state_index STATE_WRITE_SPI_DATA = 3"
| "state_index STATE_WRITE_DMA_DATA = 4"

text \<open>
  A \<^verbatim>\<open>gd_event_cb\<close> is a pointer to one of five handlers; the model names the handler, and
  \<open>None\<close> is the \<^verbatim>\<open>NULL\<close> pointer.
\<close>

datatype gd_event_cb =
    CB_gdrom_ata_cmd
  | CB_gdrom_pio_write
  | CB_gdrom_spi_cmd
  | CB_gdrom_pio_read
  | CB_gdrom_spi_data

definition gd_transitions :: "gd_event_cb option list list" where
  "gd_transitions = [
    [Some CB_gdrom_ata_cmd, None,                    None,                  None,                   None],
    [Some CB_gdrom_ata_cmd, Some CB_gdrom_pio_write, Some CB_gdrom_spi_cmd, None,                   None],
    [Some CB_gdrom_ata_cmd, Some CB_gdrom_pio_write, None,                  None,                   Some CB_gdrom_spi_data],
    [Some CB_gdrom_ata_cmd, None,                    None,                  Some CB_gdrom_pio_read, None],
    [Some CB_gdrom_ata_cmd, None,                    None,                  Some CB_gdrom_pio_read, None]]"

definition gd_transitions_at :: "gd_state \<Rightarrow> gd_event \<Rightarrow> gd_event_cb option" where
  "gd_transitions_at s ev = gd_transitions ! state_index s ! event_index ev"

subsection \<open>What gdrom.c takes from headers that are not in the tree\<close>

text \<open>
  The command codes of \<^verbatim>\<open>gdrom_types.h\<close> are enumerations whose values the tree does not
  show. The model has one constructor for each \<^verbatim>\<open>case\<close> label of a \<^verbatim>\<open>switch\<close> and one for
  its \<^verbatim>\<open>default\<close>; the map from a code to its constructor is a parameter.
\<close>

datatype gd_ata_cmd =
    GD_ATA_NOP
  | GD_ATA_SOFT_RESET
  | GD_ATA_EXEC_DIAG
  | GD_ATA_PACKET_CMD
  | GD_ATA_IDENTIFY_DEV
  | GD_ATA_SET_FEATURES
  | GD_ATA_unsupported

datatype gd_spi_cmd =
    GD_SPI_TEST_UNIT
  | GD_SPI_REQ_STAT
  | GD_SPI_REQ_MODE
  | GD_SPI_SET_MODE
  | GD_SPI_REQ_ERROR
  | GD_SPI_GET_TOC
  | GD_SPI_REQ_SES
  | GD_SPI_CD_OPEN
  | GD_SPI_CD_PLAY
  | GD_SPI_CD_SEEK
  | GD_SPI_CD_SCAN
  | GD_SPI_CD_READ
  | GD_SPI_CD_READ2
  | GD_SPI_GET_SCD
  | GD_SPI_CHK_SECU
  | GD_SPI_REQ_SECU
  | GD_SPI_unsupported

datatype gd_seek_type =
    GD_SEEK_FAD
  | GD_SEEK_MSF
  | GD_SEEK_STOP
  | GD_SEEK_PAUSE
  | GD_SEEK_other

text \<open>The reply structures, as the values of the fields gdrom.c assigns.\<close>

datatype gd_spi_status = Gd_spi_status
  (stat_status: int) (stat_repeat: int) (stat_format: int) (stat_control: int)
  (stat_address: int) (stat_scd_track: int) (stat_scd_index: int) (stat_fad: int)

datatype gd_spi_error = Gd_spi_error (err_one: int)

datatype gd_spi_session = Gd_spi_session (ses_status: int) (ses_track: int) (ses_fad: int)

datatype gd_spi_toc_entry = Gd_spi_toc_entry (entry_adr: int) (entry_ctrl: int) (entry_fad: int)

datatype gd_spi_toc_info = Gd_spi_toc_info (info_adr: int) (info_ctrl: int) (info_track_num: int)

datatype gd_spi_toc = Gd_spi_toc
  (toc_entries: "gd_spi_toc_entry list") (toc_first: gd_spi_toc_info)
  (toc_last: gd_spi_toc_info) (toc_leadout: gd_spi_toc_entry)

text \<open>
  The parameters: the constants, the sizes and the object representations that
  \<^verbatim>\<open>gdrom_types.h\<close>, \<^verbatim>\<open>gdrom_replies.inc\<close> and the disc's header declare.
\<close>

record gd_types =
  DISC_MAX_SECTOR_SIZE :: int
  GD_SPI_SCD_SIZE :: int
  GD_AUDIO_NOSTATUS :: u8
  GD_STATUS_PAUSE :: int
  GD_STATUS_STANDBY :: int
  GD_STATUS_NODISC :: int
  ata_cmd_of :: "int \<Rightarrow> gd_ata_cmd"
  spi_cmd_of :: "int \<Rightarrow> gd_spi_cmd"
  seek_type_of :: "int \<Rightarrow> gd_seek_type"
  features_dma :: "32 word \<Rightarrow> int"
  sizeof_gd_spi_error :: int
  sizeof_gd_spi_session :: int
  bytes_of_status :: "gd_spi_status \<Rightarrow> u8 list"
  bytes_of_error :: "gd_spi_error \<Rightarrow> u8 list"
  bytes_of_session :: "gd_spi_session \<Rightarrow> u8 list"
  bytes_of_toc :: "gd_spi_toc \<Rightarrow> u8 list"
  toc_memset_ff :: gd_spi_toc
  reply_71 :: "u8 list"
  hw_info_default :: "u8 list"

text \<open>Modelled from the spec: a command packet is 12 bytes (\<^verbatim>\<open>GD_SPI_CMD_SIZE\<close> of
  \<^verbatim>\<open>gdrom_types.h\<close>, which is not in the tree).\<close>

definition GD_SPI_CMD_SIZE :: int where
  "GD_SPI_CMD_SIZE = 12"

text \<open>Modelled from the spec: \<^verbatim>\<open>bswap24\<close> of \<^verbatim>\<open>core/math.h\<close> (not in the tree) turns a
  24-bit address into big-endian byte order: it exchanges the low and the high byte.\<close>

definition bswap24 :: "int \<Rightarrow> int" where
  "bswap24 fad =
     push_bit 16 (fad AND 0xff) OR (fad AND 0xff00) OR (drop_bit 16 fad AND 0xff)"

subsection \<open>The disc collaborator\<close>

datatype track = Track (track_num: int) (track_fad: int) (track_adr: int) (track_ctrl: int)

datatype session = Session (leadout_fad: int) (first_track: int)

text \<open>
  A disc is what the controller can ask of it. \<open>disc_read_sector d fad fmt msk\<close> is
  the data of one sector; its length is the \<open>n\<close> the C function returns.
\<close>

record disc =
  disc_read_sector :: "int \<Rightarrow> int \<Rightarrow> int \<Rightarrow> u8 list"
  disc_get_format :: int
  disc_get_num_sessions :: int
  disc_get_session :: "int \<Rightarrow> session"
  disc_get_track :: "int \<Rightarrow> track"
  disc_get_toc :: "int \<Rightarrow> track \<times> track \<times> int \<times> int"

subsection \<open>The controller\<close>

text \<open>
  The register unions are records of the bit-fields gdrom.c names. Writing 0 to
  \<^verbatim>\<open>full\<close> clears every field. The byte count is kept as its \<^verbatim>\<open>full\<close> view, since the
  source writes it both ways.
\<close>

record gd_error =
  ABRT :: bool

record gd_intreason =
  CoD :: bool
  IO :: bool

record gd_sectnum =
  sectnum_status :: int
  sectnum_format :: int

record gd_status =
  CHECK :: bool
  DRQ :: bool
  DRDY :: bool
  BSY :: bool

text \<open>Modelled from the spec: the byte-count register is a lo/hi pair of bytes
  (\<^verbatim>\<open>union gd_bytect\<close> of \<^verbatim>\<open>gdrom_types.h\<close>, not in the tree): \<open>lo\<close> is bits 0 to 7 of
  \<^verbatim>\<open>full\<close> and \<open>hi\<close> bits 8 to 15.\<close>

definition bytect_lo :: "32 word \<Rightarrow> 32 word" where
  "bytect_lo bc = bc AND 0xff"

definition bytect_hi :: "32 word \<Rightarrow> 32 word" where
  "bytect_hi bc = drop_bit 8 bc AND 0xff"

definition bytect_set_lo :: "32 word \<Rightarrow> 32 word \<Rightarrow> 32 word" where
  "bytect_set_lo bc v = (bc AND NOT 0xff) OR (v AND 0xff)"

definition bytect_set_hi :: "32 word \<Rightarrow> 32 word \<Rightarrow> 32 word" where
  "bytect_set_hi bc v = (bc AND NOT 0xff00) OR push_bit 8 (v AND 0xff)"

text \<open>
  \<open>hw_info\<close> is the object representation of \<^verbatim>\<open>struct gd_hw_info\<close>: the source copies
  bytes in and out of it at raw offsets. The two buffers are arrays of \<open>0x10000\<close> bytes,
  indexed by \<open>int\<close> as the C code indexes them. An index outside the array stands for
  the memory next to it: the model keeps that memory apart from the other fields of the
  controller. The interrupt controller is the level of the drive's line and the number
  of times it was raised.
\<close>

record gdrom =
  state :: gd_state
  hw_info :: "u8 list"
  disc :: "disc option"
  error :: gd_error
  features :: "32 word"
  ireason :: gd_intreason
  sectnum :: gd_sectnum
  byte_count :: "32 word"
  status :: gd_status
  cdr_dma :: int
  cdr_secfmt :: int
  cdr_secmask :: int
  cdr_first_sector :: int
  cdr_num_sectors :: int
  pio_buffer :: "int \<Rightarrow> u8"
  pio_head :: int
  pio_size :: int
  pio_offset :: int
  dma_buffer :: "int \<Rightarrow> u8"
  dma_head :: int
  dma_size :: int
  holly_G1GDINT :: bool
  holly_raised :: nat

definition sizeof_buffer :: int where
  "sizeof_buffer = 0x10000"

definition holly_raise_interrupt :: "gdrom \<Rightarrow> gdrom" where
  "holly_raise_interrupt gd = gd\<lparr>holly_G1GDINT := True, holly_raised := Suc (holly_raised gd)\<rparr>"

definition holly_clear_interrupt :: "gdrom \<Rightarrow> gdrom" where
  "holly_clear_interrupt gd = gd\<lparr>holly_G1GDINT := False\<rparr>"

text \<open>\<open>memcpy dst off bs\<close>: the array \<open>dst\<close> after the bytes \<open>bs\<close> are copied to offset
  \<open>off\<close>. \<open>buffer_bytes buf off n\<close>: the \<open>n\<close> bytes of \<open>buf\<close> from offset \<open>off\<close>.\<close>

definition memcpy :: "(int \<Rightarrow> u8) \<Rightarrow> int \<Rightarrow> u8 list \<Rightarrow> (int \<Rightarrow> u8)" where
  "memcpy dst off bs =
     (\<lambda>i. if off \<le> i \<and> i < off + int (length bs) then bs ! nat (i - off) else dst i)"

definition buffer_bytes :: "(int \<Rightarrow> u8) \<Rightarrow> int \<Rightarrow> int \<Rightarrow> u8 list" where
  "buffer_bytes buf off n = map (\<lambda>k. buf (off + int k)) [0 ..< nat n]"

subsection \<open>Frame addresses\<close>

definition gdrom_get_fad :: "u8 \<Rightarrow> u8 \<Rightarrow> u8 \<Rightarrow> int \<Rightarrow> int" where
  "gdrom_get_fad a b c msf =
     (if msf \<noteq> 0 then (uint a * 60 * 75) + (uint b * 75) + uint c
      else push_bit 16 (uint a) OR push_bit 8 (uint b) OR uint c)"

subsection \<open>Reading sectors\<close>

text \<open>
  The loop of \<^verbatim>\<open>gdrom_read_sectors\<close>, from sector \<open>i\<close> for \<open>k\<close> more sectors; \<open>acc\<close> is
  what has been copied to \<open>dst\<close> so far, so \<open>read\<close> is its length.
\<close>

fun read_sectors_loop ::
  "disc \<Rightarrow> int \<Rightarrow> int \<Rightarrow> int \<Rightarrow> nat \<Rightarrow> int \<Rightarrow> u8 list \<Rightarrow> failure + u8 list" where
  "read_sectors_loop d fmt msk i 0 dst_size acc = Inr acc"
| "read_sectors_loop d fmt msk i (Suc k) dst_size acc =
     (let data = disc_read_sector d i fmt msk in
      if \<not> int (length acc) + int (length data) \<le> dst_size then Inl CHECK_LE_read
      else read_sectors_loop d fmt msk (i + 1) k dst_size (acc @ data))"

text \<open>The result is the bytes copied to the start of \<open>dst\<close>; the C function returns
  their number.\<close>

definition gdrom_read_sectors ::
  "gdrom \<Rightarrow> int \<Rightarrow> int \<Rightarrow> int \<Rightarrow> int \<Rightarrow> int \<Rightarrow> failure + u8 list" where
  "gdrom_read_sectors gd fad fmt msk num_sectors dst_size =
     (case disc gd of
        None \<Rightarrow> Inr []
      | Some d \<Rightarrow> read_sectors_loop d fmt msk fad (nat num_sectors) dst_size [])"

text \<open>
  \<^verbatim>\<open>gdrom_copy_sectors\<close> reads one sector at a time into a buffer of
  \<^verbatim>\<open>DISC_MAX_SECTOR_SIZE\<close> bytes and copies it to guest memory. The result is the bytes
  copied to the guest address; the C function returns their number.
\<close>

fun copy_sectors_loop ::
  "gdrom \<Rightarrow> int \<Rightarrow> int \<Rightarrow> int \<Rightarrow> nat \<Rightarrow> int \<Rightarrow> u8 list \<Rightarrow> failure + u8 list" where
  "copy_sectors_loop gd fmt msk i 0 tmp_size acc = Inr acc"
| "copy_sectors_loop gd fmt msk i (Suc k) tmp_size acc =
     (case gdrom_read_sectors gd i fmt msk 1 tmp_size of
        Inl e \<Rightarrow> Inl e
      | Inr tmp \<Rightarrow> copy_sectors_loop gd fmt msk (i + 1) k tmp_size (acc @ tmp))"

definition gdrom_copy_sectors ::
  "gd_types \<Rightarrow> gdrom \<Rightarrow> int \<Rightarrow> int \<Rightarrow> int \<Rightarrow> int \<Rightarrow> failure + u8 list" where
  "gdrom_copy_sectors p gd fad fmt msk num_sectors =
     (case disc gd of
        None \<Rightarrow> Inr []
      | Some d \<Rightarrow>
          copy_sectors_loop gd fmt msk fad (nat num_sectors) (DISC_MAX_SECTOR_SIZE p) [])"

subsection \<open>Ending and starting the phases of a packet command\<close>

definition gdrom_spi_end :: "gdrom \<Rightarrow> gdrom" where
  "gdrom_spi_end gd =
     (holly_raise_interrupt
        (gd\<lparr>ireason := (ireason gd)\<lparr>IO := True, CoD := True\<rparr>,
            status := (status gd)\<lparr>DRDY := True, BSY := False, DRQ := False\<rparr>\<rparr>))
     \<lparr>state := STATE_READ_ATA_CMD\<rparr>"

definition gdrom_spi_cdread :: "gd_types \<Rightarrow> gdrom \<Rightarrow> failure + gdrom" where
  "gdrom_spi_cdread p gd =
     (if cdr_dma gd \<noteq> 0 then
        (let max_dma_sectors = sizeof_buffer div DISC_MAX_SECTOR_SIZE p;
             num_sectors = min (cdr_num_sectors gd) max_dma_sectors
         in case gdrom_read_sectors gd (cdr_first_sector gd) (cdr_secfmt gd) (cdr_secmask gd)
                   num_sectors sizeof_buffer of
              Inl e \<Rightarrow> Inl e
            | Inr bs \<Rightarrow>
                Inr (gd\<lparr>dma_buffer := memcpy (dma_buffer gd) 0 bs,
                        dma_size := int (length bs),
                        dma_head := 0,
                        cdr_first_sector := cdr_first_sector gd + num_sectors,
                        cdr_num_sectors := cdr_num_sectors gd - num_sectors,
                        state := STATE_WRITE_DMA_DATA\<rparr>))
      else
        (let max_pio_sectors = sizeof_buffer div DISC_MAX_SECTOR_SIZE p;
             num_sectors = min (cdr_num_sectors gd) max_pio_sectors
         in case gdrom_read_sectors gd (cdr_first_sector gd) (cdr_secfmt gd) (cdr_secmask gd)
                   num_sectors sizeof_buffer of
              Inl e \<Rightarrow> Inl e
            | Inr bs \<Rightarrow>
                Inr ((holly_raise_interrupt
                       (gd\<lparr>pio_buffer := memcpy (pio_buffer gd) 0 bs,
                           pio_size := int (length bs),
                           pio_head := 0,
                           cdr_first_sector := cdr_first_sector gd + num_sectors,
                           cdr_num_sectors := cdr_num_sectors gd - num_sectors,
                           byte_count := word_of_int (int (length bs)),
                           ireason := (ireason gd)\<lparr>IO := True, CoD := False\<rparr>,
                           status := (status gd)\<lparr>DRQ := True, BSY := False\<rparr>\<rparr>))
                     \<lparr>state := STATE_WRITE_SPI_DATA\<rparr>)))"

definition gdrom_spi_read :: "gdrom \<Rightarrow> int \<Rightarrow> int \<Rightarrow> gdrom" where
  "gdrom_spi_read gd offset sz =
     (holly_raise_interrupt
        (gd\<lparr>cdr_num_sectors := 0,
            pio_head := 0,
            pio_size := sz,
            pio_offset := offset,
            byte_count := word_of_int sz,
            ireason := (ireason gd)\<lparr>IO := True, CoD := False\<rparr>,
            status := (status gd)\<lparr>DRQ := True, BSY := False\<rparr>\<rparr>))
     \<lparr>state := STATE_READ_SPI_DATA\<rparr>"

text \<open>
  \<open>data\<close> is the object the source pointer points into, from the pointer on. Copying
  more than it holds reads outside the object, and so does a negative size, which
  \<^verbatim>\<open>memcpy\<close> takes as a huge unsigned one.
\<close>

definition gdrom_spi_write :: "gdrom \<Rightarrow> u8 list \<Rightarrow> int \<Rightarrow> failure + gdrom" where
  "gdrom_spi_write gd data sz =
     (if \<not> sz < sizeof_buffer then Inl CHECK_size
      else if sz < 0 \<or> int (length data) < sz then Inl OUT_OF_BOUNDS
      else
        Inr ((holly_raise_interrupt
               (gd\<lparr>cdr_num_sectors := 0,
                   pio_buffer := memcpy (pio_buffer gd) 0 (take (nat sz) data),
                   pio_size := sz,
                   pio_head := 0,
                   byte_count := word_of_int sz,
                   ireason := (ireason gd)\<lparr>IO := True, CoD := False\<rparr>,
                   status := (status gd)\<lparr>DRQ := True, BSY := False\<rparr>\<rparr>))
             \<lparr>state := STATE_WRITE_SPI_DATA\<rparr>))"

definition gdrom_ata_end :: "gdrom \<Rightarrow> gdrom" where
  "gdrom_ata_end gd =
     (holly_raise_interrupt (gd\<lparr>status := (status gd)\<lparr>DRDY := True, BSY := False\<rparr>\<rparr>))
     \<lparr>state := STATE_READ_ATA_CMD\<rparr>"

subsection \<open>The replies\<close>

definition gdrom_get_status :: "gdrom \<Rightarrow> failure + gd_spi_status" where
  "gdrom_get_status gd =
     (case disc gd of
        None \<Rightarrow> Inl CHECK_NOTNULL_disc
      | Some d \<Rightarrow>
          Inr (Gd_spi_status (sectnum_status (sectnum gd)) 0 (sectnum_format (sectnum gd))
                 0x4 0 2 0 0x0))"

definition gdrom_get_error :: "gd_types \<Rightarrow> gdrom \<Rightarrow> failure + gd_spi_error" where
  "gdrom_get_error p gd =
     (case disc gd of
        None \<Rightarrow> Inl CHECK_NOTNULL_disc
      | Some d \<Rightarrow>
          if sizeof_gd_spi_error p \<noteq> 10 then Inl CHECK_EQ_sizeof
          else Inr (Gd_spi_error 0xf))"

definition gdrom_get_session :: "gdrom \<Rightarrow> int \<Rightarrow> failure + gd_spi_session" where
  "gdrom_get_session gd session_num =
     (case disc gd of
        None \<Rightarrow> Inl CHECK_NOTNULL_disc
      | Some d \<Rightarrow>
          if session_num = 0 then
            (let num_sessions = disc_get_num_sessions d;
                 last_session = disc_get_session d (num_sessions - 1)
             in Inr (Gd_spi_session (sectnum_status (sectnum gd)) num_sessions
                       (leadout_fad last_session)))
          else
            (let session = disc_get_session d (session_num - 1);
                 first = disc_get_track d (first_track session)
             in Inr (Gd_spi_session (sectnum_status (sectnum gd)) (track_num first)
                       (track_fad first))))"

text \<open>The sub-channel block is an array of \<^verbatim>\<open>GD_SPI_SCD_SIZE\<close> bytes; the source writes
  its bytes 1 to 3.\<close>

definition gdrom_get_subcode :: "gd_types \<Rightarrow> gdrom \<Rightarrow> int \<Rightarrow> int \<Rightarrow> failure + u8 list" where
  "gdrom_get_subcode p gd format sz =
     (case disc gd of
        None \<Rightarrow> Inl CHECK_NOTNULL_disc
      | Some d \<Rightarrow>
          if \<not> sz \<ge> GD_SPI_SCD_SIZE p then Inl CHECK_GE_size
          else if GD_SPI_SCD_SIZE p < 2 then Inl OUT_OF_BOUNDS
          else
            (let data = replicate (nat (GD_SPI_SCD_SIZE p)) (0 :: u8);
                 data = data[1 := GD_AUDIO_NOSTATUS p]
             in if format = 0 then
                  (if GD_SPI_SCD_SIZE p < 4 then Inl OUT_OF_BOUNDS
                   else Inr (data[2 := 0x0, 3 := 0x64]))
                else if format = 1 then
                  (if GD_SPI_SCD_SIZE p < 4 then Inl OUT_OF_BOUNDS
                   else Inr (data[2 := 0x0, 3 := 0xe]))
                else Inr data))"

text \<open>The loop of \<^verbatim>\<open>gdrom_get_toc\<close>, from track number \<open>i\<close> for \<open>k\<close> more tracks.\<close>

fun get_toc_loop ::
  "disc \<Rightarrow> int \<Rightarrow> nat \<Rightarrow> gd_spi_toc_entry list \<Rightarrow> failure + gd_spi_toc_entry list" where
  "get_toc_loop d i 0 es = Inr es"
| "get_toc_loop d i (Suc k) es =
     (let t = disc_get_track d (i - 1) in
      if \<not> (0 \<le> i - 1 \<and> i - 1 < int (length es)) then Inl OUT_OF_BOUNDS
      else get_toc_loop d (i + 1) k
             (es[nat (i - 1) := Gd_spi_toc_entry (track_adr t) (track_ctrl t) (track_fad t)]))"

definition gdrom_get_toc :: "gd_types \<Rightarrow> gdrom \<Rightarrow> int \<Rightarrow> failure + gd_spi_toc" where
  "gdrom_get_toc p gd area =
     (case disc gd of
        None \<Rightarrow> Inl CHECK_NOTNULL_disc
      | Some d \<Rightarrow>
          (case disc_get_toc d area of
             (first_trk, last_trk, leadin, leadout) \<Rightarrow>
               (let toc = toc_memset_ff p in
                case get_toc_loop d (track_num first_trk)
                       (nat (track_num last_trk + 1 - track_num first_trk)) (toc_entries toc) of
                  Inl e \<Rightarrow> Inl e
                | Inr es \<Rightarrow>
                    Inr (Gd_spi_toc es
                           (Gd_spi_toc_info (track_adr first_trk) (track_ctrl first_trk) (track_num first_trk))
                           (Gd_spi_toc_info (track_adr last_trk) (track_ctrl last_trk) (track_num last_trk))
                           (Gd_spi_toc_entry (entry_adr (toc_leadout toc))
                              (entry_ctrl (toc_leadout toc)) leadout)))))"

subsection \<open>Attaching a disc: the soft reset\<close>

text \<open>
  Destroying the previous disc and logging the new one's meta data leave the controller
  as it is. After the first statement \<^verbatim>\<open>gd->disc\<close> and \<^verbatim>\<open>disc\<close> are the same pointer, so
  the format is read from the attached disc.
\<close>

definition gdrom_set_disc :: "gd_types \<Rightarrow> gdrom \<Rightarrow> disc option \<Rightarrow> gdrom" where
  "gdrom_set_disc p gd0 d =
     (let gd = (if disc gd0 \<noteq> d then gd0\<lparr>disc := d\<rparr> else gd0);
          gd = gd\<lparr>error := \<lparr>ABRT = False\<rparr>\<rparr>;
          gd = gd\<lparr>status := \<lparr>CHECK = False, DRQ = False, DRDY = True, BSY = False\<rparr>\<rparr>;
          gd = gd\<lparr>sectnum := \<lparr>sectnum_status = 0, sectnum_format = 0\<rparr>\<rparr>
      in case disc gd of
           Some dd \<Rightarrow>
             gd\<lparr>sectnum := (sectnum gd)\<lparr>sectnum_status := GD_STATUS_PAUSE p,
                                       sectnum_format := disc_get_format dd\<rparr>\<rparr>
         | None \<Rightarrow> gd\<lparr>sectnum := (sectnum gd)\<lparr>sectnum_status := GD_STATUS_NODISC p\<rparr>\<rparr>)"

subsection \<open>The handlers of the state machine\<close>

text \<open>\<^verbatim>\<open>gdrom_spi_data\<close> copies the \<open>pio_size\<close> bytes received into the hardware
  information block at \<open>pio_offset\<close>.\<close>

definition gdrom_spi_data :: "gdrom \<Rightarrow> int \<Rightarrow> failure + gdrom" where
  "gdrom_spi_data gd arg =
     (let offset = pio_offset gd;
          data = pio_buffer gd;
          sz = pio_size gd
      in if \<not> (0 \<le> offset \<and> 0 \<le> sz \<and> offset + sz \<le> int (length (hw_info gd))
               \<and> sz \<le> sizeof_buffer)
         then Inl OUT_OF_BOUNDS
         else Inr (gdrom_spi_end
                (gd\<lparr>hw_info := take (nat offset) (hw_info gd) @ buffer_bytes data 0 sz
                                 @ drop (nat (offset + sz)) (hw_info gd)\<rparr>)))"

definition gdrom_pio_read :: "gd_types \<Rightarrow> gdrom \<Rightarrow> int \<Rightarrow> failure + gdrom" where
  "gdrom_pio_read p gd arg =
     (if pio_head gd = pio_size gd then
        (if cdr_num_sectors gd \<noteq> 0 then gdrom_spi_cdread p gd
         else Inr (gdrom_spi_end gd))
      else Inr gd)"

definition gdrom_spi_cmd :: "gd_types \<Rightarrow> gdrom \<Rightarrow> int \<Rightarrow> failure + gdrom" where
  "gdrom_spi_cmd p gd0 arg =
     (let data = pio_buffer gd0;
          cmd = uint (data 0);
          gd = gd0\<lparr>status := (status gd0)\<lparr>DRQ := False, BSY := True\<rparr>\<rparr>
      in case spi_cmd_of p cmd of
           GD_SPI_REQ_STAT \<Rightarrow>
             (let offset = uint (data 2); sz = uint (data 4) in
              case gdrom_get_status gd of
                Inl e \<Rightarrow> Inl e
              | Inr stat \<Rightarrow>
                  (let stat = Gd_spi_status (stat_status stat) (stat_repeat stat)
                         (stat_format stat) (stat_control stat) (stat_address stat)
                         (stat_scd_track stat) (stat_scd_index stat) (bswap24 (stat_fad stat))
                   in gdrom_spi_write gd (drop (nat offset) (bytes_of_status p stat)) sz))
         | GD_SPI_REQ_MODE \<Rightarrow>
             (let offset = uint (data 2); sz = uint (data 4) in
              gdrom_spi_write gd (drop (nat offset) (hw_info gd)) sz)
         | GD_SPI_REQ_ERROR \<Rightarrow>
             (let sz = uint (data 4) in
              case gdrom_get_error p gd of
                Inl e \<Rightarrow> Inl e
              | Inr err \<Rightarrow> gdrom_spi_write gd (bytes_of_error p err) sz)
         | GD_SPI_GET_TOC \<Rightarrow>
             (let area = uint (data 1) AND 0x1;
                  sz = push_bit 8 (uint (data 3)) OR uint (data 4) in
              case gdrom_get_toc p gd area of
                Inl e \<Rightarrow> Inl e
              | Inr toc \<Rightarrow>
                  (let toc = Gd_spi_toc
                         (map (\<lambda>entry. Gd_spi_toc_entry (entry_adr entry) (entry_ctrl entry)
                                          (bswap24 (entry_fad entry)))
                            (toc_entries toc))
                         (toc_first toc) (toc_last toc)
                         (Gd_spi_toc_entry (entry_adr (toc_leadout toc))
                            (entry_ctrl (toc_leadout toc)) (bswap24 (entry_fad (toc_leadout toc))))
                   in gdrom_spi_write gd (bytes_of_toc p toc) sz))
         | GD_SPI_REQ_SES \<Rightarrow>
             (let session = uint (data 2); sz = uint (data 4) in
              case gdrom_get_session gd session of
                Inl e \<Rightarrow> Inl e
              | Inr ses \<Rightarrow>
                  (let ses = Gd_spi_session (ses_status ses) (ses_track ses)
                               (bswap24 (ses_fad ses))
                   in gdrom_spi_write gd (bytes_of_session p ses) (sizeof_gd_spi_session p)))
         | GD_SPI_GET_SCD \<Rightarrow>
             (let format = uint (data 1) AND 0xf;
                  sz = push_bit 8 (uint (data 3)) OR uint (data 4) in
              case gdrom_get_subcode p gd format (GD_SPI_SCD_SIZE p) of
                Inl e \<Rightarrow> Inl e
              | Inr scd \<Rightarrow> gdrom_spi_write gd scd sz)
         | GD_SPI_CD_READ \<Rightarrow>
             (let msf = uint (data 1) AND 0x1 in
              gdrom_spi_cdread p
                (gd\<lparr>cdr_dma := features_dma p (features gd),
                    cdr_secfmt := drop_bit 1 (uint (data 1) AND 0xe),
                    cdr_secmask := drop_bit 4 (uint (data 1)) AND 0xff,
                    cdr_first_sector := gdrom_get_fad (data 2) (data 3) (data 4) msf,
                    cdr_num_sectors :=
                      push_bit 16 (uint (data 8)) OR push_bit 8 (uint (data 9))
                        OR uint (data 10)\<rparr>))
         | GD_SPI_CD_READ2 \<Rightarrow> Inl LOG_FATAL
         | GD_SPI_SET_MODE \<Rightarrow>
             (let offset = uint (data 2); sz = uint (data 4) in
              Inr (gdrom_spi_read gd offset sz))
         | GD_SPI_TEST_UNIT \<Rightarrow> Inr (gdrom_spi_end gd)
         | GD_SPI_CD_OPEN \<Rightarrow> Inl LOG_FATAL
         | GD_SPI_CD_PLAY \<Rightarrow>
             Inr (gdrom_spi_end
                    (gd\<lparr>sectnum := (sectnum gd)\<lparr>sectnum_status := GD_STATUS_PAUSE p\<rparr>\<rparr>))
         | GD_SPI_CD_SEEK \<Rightarrow>
             (let param_type = uint (data 1) AND 0xf;
                  gd = (case seek_type_of p param_type of
                          GD_SEEK_FAD \<Rightarrow>
                            gd\<lparr>sectnum := (sectnum gd)\<lparr>sectnum_status := GD_STATUS_PAUSE p\<rparr>\<rparr>
                        | GD_SEEK_MSF \<Rightarrow>
                            gd\<lparr>sectnum := (sectnum gd)\<lparr>sectnum_status := GD_STATUS_PAUSE p\<rparr>\<rparr>
                        | GD_SEEK_PAUSE \<Rightarrow>
                            gd\<lparr>sectnum := (sectnum gd)\<lparr>sectnum_status := GD_STATUS_PAUSE p\<rparr>\<rparr>
                        | GD_SEEK_STOP \<Rightarrow>
                            gd\<lparr>sectnum := (sectnum gd)\<lparr>sectnum_status := GD_STATUS_STANDBY p\<rparr>\<rparr>
                        | GD_SEEK_other \<Rightarrow> gd)
              in Inr (gdrom_spi_end gd))
         | GD_SPI_CD_SCAN \<Rightarrow>
             Inr (gdrom_spi_end
                    (gd\<lparr>sectnum := (sectnum gd)\<lparr>sectnum_status := GD_STATUS_PAUSE p\<rparr>\<rparr>))
         | GD_SPI_CHK_SECU \<Rightarrow> Inr (gdrom_spi_end gd)
         | GD_SPI_REQ_SECU \<Rightarrow> gdrom_spi_write gd (reply_71 p) (int (length (reply_71 p)))
         | GD_SPI_unsupported \<Rightarrow> Inl LOG_FATAL)"

definition gdrom_ata_cmd :: "gd_types \<Rightarrow> gdrom \<Rightarrow> int \<Rightarrow> failure + gdrom" where
  "gdrom_ata_cmd p gd0 cmd =
     (let read_data = (0 :: int);
          gd = gd0\<lparr>status := (status gd0)\<lparr>DRDY := False, BSY := True\<rparr>\<rparr>;
          gd = gd\<lparr>error := \<lparr>ABRT = False\<rparr>\<rparr>;
          gd = gd\<lparr>status := (status gd)\<lparr>CHECK := False\<rparr>\<rparr>
      in case (case ata_cmd_of p cmd of
                 GD_ATA_NOP \<Rightarrow>
                   Inr (read_data,
                        gd\<lparr>error := (error gd)\<lparr>ABRT := True\<rparr>,
                           status := (status gd)\<lparr>CHECK := True\<rparr>\<rparr>)
               | GD_ATA_SOFT_RESET \<Rightarrow> Inr (read_data, gdrom_set_disc p gd (disc gd))
               | GD_ATA_EXEC_DIAG \<Rightarrow> Inl LOG_FATAL
               | GD_ATA_PACKET_CMD \<Rightarrow> Inr (1, gd)
               | GD_ATA_IDENTIFY_DEV \<Rightarrow> Inl LOG_FATAL
               | GD_ATA_SET_FEATURES \<Rightarrow> Inr (read_data, gd)
               | GD_ATA_unsupported \<Rightarrow> Inl LOG_FATAL) of
           Inl e \<Rightarrow> Inl e
         | Inr (read_data, gd) \<Rightarrow>
             if read_data \<noteq> 0 then
               Inr (gd\<lparr>pio_head := 0,
                       ireason := (ireason gd)\<lparr>CoD := True, IO := False\<rparr>,
                       status := (status gd)\<lparr>DRQ := True, BSY := False\<rparr>,
                       state := STATE_READ_ATA_DATA\<rparr>)
             else Inr (gdrom_ata_end gd))"

text \<open>
  \<^verbatim>\<open>gdrom_event\<close> calls the handler the table gives, and \<^verbatim>\<open>gdrom_pio_write\<close> calls
  \<^verbatim>\<open>gdrom_event\<close> again: the two are defined together. The calls end because
  \<^verbatim>\<open>gdrom_pio_write\<close> stands in the table's \<^verbatim>\<open>EVENT_PIO_WRITE\<close> column only, and raises
  other events.
\<close>

lemma gd_transitions_at_pio_write:
  "gd_transitions_at s ev = Some CB_gdrom_pio_write \<Longrightarrow> ev = EVENT_PIO_WRITE"
  by (cases s; cases ev) (simp_all add: gd_transitions_at_def gd_transitions_def)

function gdrom_event :: "gd_types \<Rightarrow> gdrom \<Rightarrow> gd_event \<Rightarrow> int \<Rightarrow> failure + gdrom"
  and gdrom_pio_write :: "gd_types \<Rightarrow> gdrom \<Rightarrow> int \<Rightarrow> failure + gdrom" where
  "gdrom_event p gd ev arg =
     (case gd_transitions_at (state gd) ev of
        None \<Rightarrow> Inl CHECK_cb
      | Some cb \<Rightarrow>
          (case cb of
             CB_gdrom_ata_cmd \<Rightarrow> gdrom_ata_cmd p gd arg
           | CB_gdrom_pio_write \<Rightarrow> gdrom_pio_write p gd arg
           | CB_gdrom_spi_cmd \<Rightarrow> gdrom_spi_cmd p gd arg
           | CB_gdrom_pio_read \<Rightarrow> gdrom_pio_read p gd arg
           | CB_gdrom_spi_data \<Rightarrow> gdrom_spi_data gd arg))"
| "gdrom_pio_write p gd arg =
     (if state gd = STATE_READ_ATA_DATA \<and> pio_head gd = GD_SPI_CMD_SIZE then
        gdrom_event p gd EVENT_SPI_CMD 0
      else if state gd = STATE_READ_SPI_DATA \<and> pio_head gd = pio_size gd then
        gdrom_event p gd EVENT_SPI_DATA 0
      else Inr gd)"
  by pat_completeness auto
termination
  by (relation "measure (\<lambda>x. case x of
                     Inl (p, gd, ev, arg) \<Rightarrow> (if ev = EVENT_PIO_WRITE then 2 else 0)
                   | Inr (p, gd, arg) \<Rightarrow> 1)")
     (auto dest: gd_transitions_at_pio_write)

subsection \<open>The DMA interface and the drive mode\<close>

definition gdrom_set_drive_mode :: "gdrom \<Rightarrow> u8 list \<Rightarrow> gdrom" where
  "gdrom_set_drive_mode gd info = gd\<lparr>hw_info := info\<rparr>"

definition gdrom_get_drive_mode :: "gdrom \<Rightarrow> u8 list" where
  "gdrom_get_drive_mode gd = hw_info gd"

definition gdrom_dma_end :: "gdrom \<Rightarrow> gdrom" where
  "gdrom_dma_end gd = gd"

text \<open>The result of \<^verbatim>\<open>gdrom_dma_read\<close> is the number of bytes returned, the bytes copied
  to \<^verbatim>\<open>data\<close>, and the controller.\<close>

definition gdrom_dma_read :: "gd_types \<Rightarrow> gdrom \<Rightarrow> int \<Rightarrow> failure + (int \<times> u8 list \<times> gdrom)" where
  "gdrom_dma_read p gd0 n0 =
     (case (if dma_head gd0 \<ge> dma_size gd0 then gdrom_spi_cdread p gd0 else Inr gd0) of
        Inl e \<Rightarrow> Inl e
      | Inr gd \<Rightarrow>
          (let remaining = dma_size gd - dma_head gd;
               n = min n0 remaining
           in if \<not> n > 0 then Inl CHECK_GT_n
              else if \<not> (0 \<le> dma_head gd \<and> dma_head gd + n \<le> sizeof_buffer)
              then Inl OUT_OF_BOUNDS
              else
                (let data = buffer_bytes (dma_buffer gd) (dma_head gd) n;
                     gd = gd\<lparr>dma_head := dma_head gd + n\<rparr>
                 in if dma_head gd \<ge> dma_size gd then Inr (n, data, gdrom_spi_end gd)
                    else Inr (n, data, gd))))"

definition gdrom_dma_begin :: "gdrom \<Rightarrow> failure + gdrom" where
  "gdrom_dma_begin gd = (if dma_size gd = 0 then Inl CHECK_dma_size else Inr gd)"

subsection \<open>The register handlers\<close>

text \<open>
  A read handler returns the register and the controller. The registers that are
  records are returned as they are: their encoding in 16 bits is the layout of
  \<^verbatim>\<open>gdrom_types.h\<close>. The data register is read and written as the host's 16-bit value at
  \<open>pio_head\<close>, low byte first. As in the source, neither handler tests \<open>pio_head\<close>
  against the size or the capacity of the buffer.
\<close>

definition REG_R32_GD_ALTSTAT_DEVCTRL :: "gdrom \<Rightarrow> gd_status \<times> gdrom" where
  "REG_R32_GD_ALTSTAT_DEVCTRL gd = (status gd, gd)"

definition REG_W32_GD_ALTSTAT_DEVCTRL :: "gdrom \<Rightarrow> 32 word \<Rightarrow> gdrom" where
  "REG_W32_GD_ALTSTAT_DEVCTRL gd v = gd"

definition REG_R32_GD_DATA :: "gd_types \<Rightarrow> gdrom \<Rightarrow> failure + (16 word \<times> gdrom)" where
  "REG_R32_GD_DATA p gd0 =
     (let v = push_bit 8 (ucast (pio_buffer gd0 (pio_head gd0 + 1)))
                OR ucast (pio_buffer gd0 (pio_head gd0));
          gd = gd0\<lparr>pio_head := pio_head gd0 + 2\<rparr>
      in case gdrom_event p gd EVENT_PIO_READ 0 of
           Inl e \<Rightarrow> Inl e
         | Inr gd \<Rightarrow> Inr (v, gd))"

definition REG_W32_GD_DATA :: "gd_types \<Rightarrow> gdrom \<Rightarrow> 32 word \<Rightarrow> failure + gdrom" where
  "REG_W32_GD_DATA p gd0 v =
     (let gd = gd0\<lparr>pio_buffer := (pio_buffer gd0)
                       (pio_head gd0 := ucast (v AND 0xffff),
                        pio_head gd0 + 1 := ucast (drop_bit 8 (v AND 0xffff)))\<rparr>;
          gd = gd\<lparr>pio_head := pio_head gd + 2\<rparr>
      in gdrom_event p gd EVENT_PIO_WRITE 0)"

definition REG_R32_GD_ERROR_FEATURES :: "gdrom \<Rightarrow> gd_error \<times> gdrom" where
  "REG_R32_GD_ERROR_FEATURES gd = (error gd, gd)"

definition REG_W32_GD_ERROR_FEATURES :: "gdrom \<Rightarrow> 32 word \<Rightarrow> gdrom" where
  "REG_W32_GD_ERROR_FEATURES gd v = gd\<lparr>features := v\<rparr>"

definition REG_R32_GD_INTREASON :: "gdrom \<Rightarrow> gd_intreason \<times> gdrom" where
  "REG_R32_GD_INTREASON gd = (ireason gd, gd)"

definition REG_W32_GD_INTREASON :: "gdrom \<Rightarrow> 32 word \<Rightarrow> failure + gdrom" where
  "REG_W32_GD_INTREASON gd v = Inl LOG_FATAL"

definition REG_R32_GD_SECTNUM :: "gdrom \<Rightarrow> gd_sectnum \<times> gdrom" where
  "REG_R32_GD_SECTNUM gd = (sectnum gd, gd)"

definition REG_W32_GD_SECTNUM :: "gdrom \<Rightarrow> 32 word \<Rightarrow> failure + gdrom" where
  "REG_W32_GD_SECTNUM gd v = Inl LOG_FATAL"

definition REG_R32_GD_BYCTLLO :: "gdrom \<Rightarrow> 32 word \<times> gdrom" where
  "REG_R32_GD_BYCTLLO gd = (bytect_lo (byte_count gd), gd)"

definition REG_W32_GD_BYCTLLO :: "gdrom \<Rightarrow> 32 word \<Rightarrow> gdrom" where
  "REG_W32_GD_BYCTLLO gd v = gd\<lparr>byte_count := bytect_set_lo (byte_count gd) v\<rparr>"

definition REG_R32_GD_BYCTLHI :: "gdrom \<Rightarrow> 32 word \<times> gdrom" where
  "REG_R32_GD_BYCTLHI gd = (bytect_hi (byte_count gd), gd)"

definition REG_W32_GD_BYCTLHI :: "gdrom \<Rightarrow> 32 word \<Rightarrow> gdrom" where
  "REG_W32_GD_BYCTLHI gd v = gd\<lparr>byte_count := bytect_set_hi (byte_count gd) v\<rparr>"

definition REG_R32_GD_DRVSEL :: "gdrom \<Rightarrow> 32 word \<times> gdrom" where
  "REG_R32_GD_DRVSEL gd = (0, gd)"

definition REG_W32_GD_DRVSEL :: "gdrom \<Rightarrow> 32 word \<Rightarrow> gdrom" where
  "REG_W32_GD_DRVSEL gd v = gd"

definition REG_R32_GD_STATUS_COMMAND :: "gdrom \<Rightarrow> gd_status \<times> gdrom" where
  "REG_R32_GD_STATUS_COMMAND gd = (status gd, holly_clear_interrupt gd)"

definition REG_W32_GD_STATUS_COMMAND :: "gd_types \<Rightarrow> gdrom \<Rightarrow> 32 word \<Rightarrow> failure + gdrom" where
  "REG_W32_GD_STATUS_COMMAND p gd v = gdrom_event p gd EVENT_ATA_CMD (sint v)"

subsection \<open>Creating the controller\<close>

text \<open>
  \<^verbatim>\<open>gdrom_init\<close> fills the hardware information block with its defaults (their
  representation is the parameter \<open>hw_info_default\<close>) and attaches no disc.
  \<^verbatim>\<open>dc_create_device\<close> is outside the tree; \<open>gdrom_create\<close> takes its allocation to be
  zero-filled: every field zero, the first state, no disc.
\<close>

definition gdrom_init :: "gd_types \<Rightarrow> gdrom \<Rightarrow> gdrom" where
  "gdrom_init p gd = gdrom_set_disc p (gd\<lparr>hw_info := hw_info_default p\<rparr>) None"

definition gdrom_zeroed :: gdrom where
  "gdrom_zeroed =
     \<lparr>state = STATE_READ_ATA_CMD, hw_info = [], disc = None,
      error = \<lparr>ABRT = False\<rparr>, features = 0,
      ireason = \<lparr>CoD = False, IO = False\<rparr>,
      sectnum = \<lparr>sectnum_status = 0, sectnum_format = 0\<rparr>,
      byte_count = 0,
      status = \<lparr>CHECK = False, DRQ = False, DRDY = False, BSY = False\<rparr>,
      cdr_dma = 0, cdr_secfmt = 0, cdr_secmask = 0, cdr_first_sector = 0, cdr_num_sectors = 0,
      pio_buffer = (\<lambda>i. 0), pio_head = 0, pio_size = 0, pio_offset = 0,
      dma_buffer = (\<lambda>i. 0), dma_head = 0, dma_size = 0,
      holly_G1GDINT = False, holly_raised = 0\<rparr>"

definition gdrom_create :: "gd_types \<Rightarrow> gdrom" where
  "gdrom_create p = gdrom_init p gdrom_zeroed"

subsection \<open>Sequences of operations\<close>

text \<open>
  What the rest of the machine can do to the controller: read or write one of its
  registers, pump the DMA, attach a disc, set the drive mode. \<open>gdrom_op\<close> is the
  controller after one operation, \<open>gdrom_run\<close> after a sequence of them; both stop at
  the first failure.
\<close>

datatype gd_op =
    R32_GD_ALTSTAT_DEVCTRL
  | W32_GD_ALTSTAT_DEVCTRL "32 word"
  | R32_GD_DATA
  | W32_GD_DATA "32 word"
  | R32_GD_ERROR_FEATURES
  | W32_GD_ERROR_FEATURES "32 word"
  | R32_GD_INTREASON
  | W32_GD_INTREASON "32 word"
  | R32_GD_SECTNUM
  | W32_GD_SECTNUM "32 word"
  | R32_GD_BYCTLLO
  | W32_GD_BYCTLLO "32 word"
  | R32_GD_BYCTLHI
  | W32_GD_BYCTLHI "32 word"
  | R32_GD_DRVSEL
  | W32_GD_DRVSEL "32 word"
  | R32_GD_STATUS_COMMAND
  | W32_GD_STATUS_COMMAND "32 word"
  | DMA_BEGIN
  | DMA_READ int
  | DMA_END
  | SET_DISC "disc option"
  | SET_DRIVE_MODE "u8 list"

fun gdrom_op :: "gd_types \<Rightarrow> gdrom \<Rightarrow> gd_op \<Rightarrow> failure + gdrom" where
  "gdrom_op p gd R32_GD_ALTSTAT_DEVCTRL = Inr (snd (REG_R32_GD_ALTSTAT_DEVCTRL gd))"
| "gdrom_op p gd (W32_GD_ALTSTAT_DEVCTRL v) = Inr (REG_W32_GD_ALTSTAT_DEVCTRL gd v)"
| "gdrom_op p gd R32_GD_DATA = map_sum id snd (REG_R32_GD_DATA p gd)"
| "gdrom_op p gd (W32_GD_DATA v) = REG_W32_GD_DATA p gd v"
| "gdrom_op p gd R32_GD_ERROR_FEATURES = Inr (snd (REG_R32_GD_ERROR_FEATURES gd))"
| "gdrom_op p gd (W32_GD_ERROR_FEATURES v) = Inr (REG_W32_GD_ERROR_FEATURES gd v)"
| "gdrom_op p gd R32_GD_INTREASON = Inr (snd (REG_R32_GD_INTREASON gd))"
| "gdrom_op p gd (W32_GD_INTREASON v) = REG_W32_GD_INTREASON gd v"
| "gdrom_op p gd R32_GD_SECTNUM = Inr (snd (REG_R32_GD_SECTNUM gd))"
| "gdrom_op p gd (W32_GD_SECTNUM v) = REG_W32_GD_SECTNUM gd v"
| "gdrom_op p gd R32_GD_BYCTLLO = Inr (snd (REG_R32_GD_BYCTLLO gd))"
| "gdrom_op p gd (W32_GD_BYCTLLO v) = Inr (REG_W32_GD_BYCTLLO gd v)"
| "gdrom_op p gd R32_GD_BYCTLHI = Inr (snd (REG_R32_GD_BYCTLHI gd))"
| "gdrom_op p gd (W32_GD_BYCTLHI v) = Inr (REG_W32_GD_BYCTLHI gd v)"
| "gdrom_op p gd R32_GD_DRVSEL = Inr (snd (REG_R32_GD_DRVSEL gd))"
| "gdrom_op p gd (W32_GD_DRVSEL v) = Inr (REG_W32_GD_DRVSEL gd v)"
| "gdrom_op p gd R32_GD_STATUS_COMMAND = Inr (snd (REG_R32_GD_STATUS_COMMAND gd))"
| "gdrom_op p gd (W32_GD_STATUS_COMMAND v) = REG_W32_GD_STATUS_COMMAND p gd v"
| "gdrom_op p gd DMA_BEGIN = gdrom_dma_begin gd"
| "gdrom_op p gd (DMA_READ n) = map_sum id (\<lambda>r. snd (snd r)) (gdrom_dma_read p gd n)"
| "gdrom_op p gd DMA_END = Inr (gdrom_dma_end gd)"
| "gdrom_op p gd (SET_DISC d) = Inr (gdrom_set_disc p gd d)"
| "gdrom_op p gd (SET_DRIVE_MODE info) = Inr (gdrom_set_drive_mode gd info)"

fun gdrom_run :: "gd_types \<Rightarrow> gdrom \<Rightarrow> gd_op list \<Rightarrow> failure + gdrom" where
  "gdrom_run p gd [] = Inr gd"
| "gdrom_run p gd (op # ops) =
     (case gdrom_op p gd op of Inl e \<Rightarrow> Inl e | Inr gd' \<Rightarrow> gdrom_run p gd' ops)"

subsection \<open>An instance of the parameters, for the examples\<close>

text \<open>
  The examples below run the controller on one instance of the parameters: the command
  codes of the GD-ROM's packet interface, sectors of at most 2352 bytes, and layouts
  that only have the right sizes. The disc of the examples has one session of one
  track, and sectors of 2048 bytes.
\<close>

definition example_ata_cmd_of :: "int \<Rightarrow> gd_ata_cmd" where
  "example_ata_cmd_of c =
     (if c = 0x00 then GD_ATA_NOP
      else if c = 0x08 then GD_ATA_SOFT_RESET
      else if c = 0x90 then GD_ATA_EXEC_DIAG
      else if c = 0xa0 then GD_ATA_PACKET_CMD
      else if c = 0xa1 then GD_ATA_IDENTIFY_DEV
      else if c = 0xef then GD_ATA_SET_FEATURES
      else GD_ATA_unsupported)"

definition example_spi_cmd_of :: "int \<Rightarrow> gd_spi_cmd" where
  "example_spi_cmd_of c =
     (if c = 0x00 then GD_SPI_TEST_UNIT
      else if c = 0x10 then GD_SPI_REQ_STAT
      else if c = 0x11 then GD_SPI_REQ_MODE
      else if c = 0x12 then GD_SPI_SET_MODE
      else if c = 0x13 then GD_SPI_REQ_ERROR
      else if c = 0x14 then GD_SPI_GET_TOC
      else if c = 0x15 then GD_SPI_REQ_SES
      else if c = 0x16 then GD_SPI_CD_OPEN
      else if c = 0x20 then GD_SPI_CD_PLAY
      else if c = 0x21 then GD_SPI_CD_SEEK
      else if c = 0x22 then GD_SPI_CD_SCAN
      else if c = 0x30 then GD_SPI_CD_READ
      else if c = 0x31 then GD_SPI_CD_READ2
      else if c = 0x40 then GD_SPI_GET_SCD
      else if c = 0x70 then GD_SPI_CHK_SECU
      else if c = 0x71 then GD_SPI_REQ_SECU
      else GD_SPI_unsupported)"

definition example_seek_type_of :: "int \<Rightarrow> gd_seek_type" where
  "example_seek_type_of c =
     (if c = 1 then GD_SEEK_FAD
      else if c = 2 then GD_SEEK_MSF
      else if c = 3 then GD_SEEK_STOP
      else if c = 4 then GD_SEEK_PAUSE
      else GD_SEEK_other)"

definition example_types :: gd_types where
  "example_types =
     \<lparr>DISC_MAX_SECTOR_SIZE = 2352,
      GD_SPI_SCD_SIZE = 100,
      GD_AUDIO_NOSTATUS = 0x15,
      GD_STATUS_PAUSE = 1,
      GD_STATUS_STANDBY = 2,
      GD_STATUS_NODISC = 7,
      ata_cmd_of = example_ata_cmd_of,
      spi_cmd_of = example_spi_cmd_of,
      seek_type_of = example_seek_type_of,
      features_dma = (\<lambda>v. uint (v AND 1)),
      sizeof_gd_spi_error = 10,
      sizeof_gd_spi_session = 6,
      bytes_of_status = (\<lambda>stat. replicate 10 0),
      bytes_of_error = (\<lambda>err. replicate 10 0),
      bytes_of_session = (\<lambda>ses. replicate 6 0),
      bytes_of_toc = (\<lambda>toc. replicate 408 0),
      toc_memset_ff =
        Gd_spi_toc (replicate 99 (Gd_spi_toc_entry 0xf 0xf 0xffffff))
          (Gd_spi_toc_info 0xf 0xf 0xff) (Gd_spi_toc_info 0xf 0xf 0xff)
          (Gd_spi_toc_entry 0xf 0xf 0xffffff),
      reply_71 = replicate 8 0,
      hw_info_default = replicate 32 0\<rparr>"

definition example_sector :: "u8 list" where
  "example_sector = replicate 2048 0"

definition example_disc :: disc where
  "example_disc =
     \<lparr>disc_read_sector = (\<lambda>fad fmt msk. example_sector),
      disc_get_format = 8,
      disc_get_num_sessions = 1,
      disc_get_session = (\<lambda>i. Session 549150 1),
      disc_get_track = (\<lambda>i. Track 1 150 1 4),
      disc_get_toc = (\<lambda>area. (Track 1 150 1 4, Track 1 150 1 4, 0, 549150))\<rparr>"

text \<open>
  The controller of the examples with the disc attached, at the moment the guest has issued
  \<^verbatim>\<open>PACKET_CMD\<close> and written the twelve bytes of a \<^verbatim>\<open>REQ_SES\<close> packet for session 0
  whose byte 4, the size it asks for, is 2: the state in which \<^verbatim>\<open>gdrom_spi_cmd\<close> is entered.
\<close>

definition req_ses_packet_state :: gdrom where
  "req_ses_packet_state =
     (gdrom_set_disc example_types (gdrom_create example_types) (Some example_disc))
       \<lparr>status := \<lparr>CHECK = False, DRQ = True, DRDY = False, BSY = False\<rparr>,
        ireason := \<lparr>CoD = True, IO = False\<rparr>,
        state := STATE_READ_ATA_DATA,
        pio_buffer := (\<lambda>i. 0)(0 := 0x15, 1 := 0, 2 := 0, 3 := 0, 4 := 2, 5 := 0, 6 := 0,
                              7 := 0, 8 := 0, 9 := 0, 10 := 0, 11 := 0),
        pio_head := 12\<rparr>"

text \<open>
  The guest's side of a DMA \<^verbatim>\<open>CD_READ\<close> of 28 sectors from frame 150 on the disc of the
  examples: attach the disc, select DMA in the features register, issue \<^verbatim>\<open>PACKET_CMD\<close>,
  write the packet (bytes \<open>30 20 00 00 96 00 00 00 00 00 1c 00\<close>) and begin the DMA.
  The buffer holds 27 sectors of at most 2352 bytes.
\<close>

definition example_cd_read_dma :: "gd_op list" where
  "example_cd_read_dma =
     [SET_DISC (Some example_disc), W32_GD_ERROR_FEATURES 1, W32_GD_STATUS_COMMAND 0xa0,
      W32_GD_DATA 0x2030, W32_GD_DATA 0, W32_GD_DATA 0x0096, W32_GD_DATA 0, W32_GD_DATA 0,
      W32_GD_DATA 0x001c, DMA_BEGIN]"

subsection \<open>Notions the properties are stated with\<close>


text \<open>
  \<open>buffer_sectors\<close> is the number of sectors a buffer holds, the \<^verbatim>\<open>max_dma_sectors\<close> and
  \<^verbatim>\<open>max_pio_sectors\<close> of \<^verbatim>\<open>gdrom_spi_cdread\<close>. \<open>chunk_sectors d fmt msk fad n\<close> is the data
  of the \<open>n\<close> sectors from \<open>fad\<close> of the disc \<open>d\<close>, and nothing when there is no disc.
  \<open>target_bytes\<close> is the content of the buffer a \<^verbatim>\<open>CD_READ\<close> fills, up to its size.
  \<open>cdread_chunks p j\<close> runs \<^verbatim>\<open>gdrom_spi_cdread\<close> \<open>j\<close> times, as the PIO and DMA engines do
  each time the buffer is exhausted.
\<close>

definition buffer_sectors :: "gd_types \<Rightarrow> int" where
  "buffer_sectors p = sizeof_buffer div DISC_MAX_SECTOR_SIZE p"

definition chunk_sectors :: "disc option \<Rightarrow> int \<Rightarrow> int \<Rightarrow> int \<Rightarrow> int \<Rightarrow> u8 list" where
  "chunk_sectors dopt fmt msk fad n =
     (case dopt of
        None \<Rightarrow> []
      | Some d \<Rightarrow> concat (map (\<lambda>j. disc_read_sector d (fad + int j) fmt msk) [0..<nat n]))"

definition target_bytes :: "gdrom \<Rightarrow> u8 list" where
  "target_bytes gd =
     (if cdr_dma gd \<noteq> 0 then buffer_bytes (dma_buffer gd) 0 (dma_size gd)
      else buffer_bytes (pio_buffer gd) 0 (pio_size gd))"

fun cdread_chunks :: "gd_types \<Rightarrow> nat \<Rightarrow> gdrom \<Rightarrow> failure + gdrom" where
  "cdread_chunks p 0 gd = Inr gd"
| "cdread_chunks p (Suc j) gd =
     (case cdread_chunks p j gd of Inl e \<Rightarrow> Inl e | Inr gd' \<Rightarrow> gdrom_spi_cdread p gd')"

text \<open>
  The controller of the examples at the moment the handler of a \<^verbatim>\<open>CD_READ\<close> of 28 sectors
  from frame 150 calls \<^verbatim>\<open>gdrom_spi_cdread\<close>.
\<close>

definition example_cd_read_state :: gdrom where
  "example_cd_read_state =
     (gdrom_set_disc example_types (gdrom_create example_types) (Some example_disc))
       \<lparr>cdr_dma := 1, cdr_secfmt := 0, cdr_secmask := 2, cdr_first_sector := 150,
        cdr_num_sectors := 28\<rparr>"

section \<open>Properties\<close>

subsection \<open>Helper facts\<close>

lemma push_bit_or_small:
  fixes x y :: int
  assumes "0 \<le> x" "x < 2 ^ n"
  shows "push_bit n y OR x = push_bit n y + x"
proof -
  have x: "take_bit n x = x"
    using assms by (simp add: take_bit_int_eq_self)
  have "\<not> bit (push_bit n y) m \<or> \<not> bit (take_bit n x) m" for m
    by (auto simp add: bit_push_bit_iff bit_take_bit_iff)
  then have "push_bit n y + take_bit n x = push_bit n y OR take_bit n x"
    by (rule disjunctive_add)
  with x show ?thesis by simp
qed

lemma fad_linear:
  "push_bit 16 (uint (a::u8)) OR push_bit 8 (uint (b::u8)) OR uint (c::u8)
     = uint a * 65536 + uint b * 256 + uint c"
proof -
  have c: "0 \<le> uint c" "uint c < 2 ^ 8"
    using uint_bounded [of c] by simp_all
  have b: "0 \<le> uint b" "uint b < 2 ^ 8"
    using uint_bounded [of b] by simp_all
  have 1: "push_bit 8 (uint b) OR uint c = push_bit 8 (uint b) + uint c"
    using c by (rule push_bit_or_small)
  have 2: "0 \<le> push_bit 8 (uint b) + uint c" "push_bit 8 (uint b) + uint c < 2 ^ 16"
    using b c by (simp_all add: push_bit_eq_mult)
  have "push_bit 16 (uint a) OR (push_bit 8 (uint b) + uint c)
          = push_bit 16 (uint a) + (push_bit 8 (uint b) + uint c)"
    using 2 by (rule push_bit_or_small)
  with 1 show ?thesis by (simp add: push_bit_eq_mult)
qed

lemma gd_transitions_at_ata_cmd:
  "gd_transitions_at s EVENT_ATA_CMD = Some CB_gdrom_ata_cmd"
  by (cases s) (simp_all add: gd_transitions_at_def gd_transitions_def)

lemma set_disc_assign: "(if disc gd \<noteq> d then gd\<lparr>disc := d\<rparr> else gd) = gd\<lparr>disc := d\<rparr>"
  by auto

lemmas example_defs = example_types_def example_ata_cmd_of_def example_spi_cmd_of_def
  example_seek_type_of_def example_disc_def gdrom_create_def gdrom_init_def gdrom_zeroed_def

lemma read_sectors_none: "disc gd = None \<Longrightarrow> gdrom_read_sectors gd fad fmt msk k sz = Inr []"
  by (simp add: gdrom_read_sectors_def)

lemma read_sectors_zero: "k \<le> 0 \<Longrightarrow> gdrom_read_sectors gd fad fmt msk k sz = Inr []"
  by (simp add: gdrom_read_sectors_def split: option.splits)

lemma read_sectors_loop_ok:
  assumes "\<forall>j<k. int (length (disc_read_sector d (i + int j) fmt msk)) \<le> M"
    and "int (length acc) + int k * M \<le> dst_size"
  shows "read_sectors_loop d fmt msk i k dst_size acc =
           Inr (acc @ concat (map (\<lambda>j. disc_read_sector d (i + int j) fmt msk) [0..<k]))"
  using assms
proof (induction k arbitrary: i acc)
  case 0
  then show ?case by simp
next
  case (Suc k)
  let ?data = "disc_read_sector d i fmt msk"
  have d0: "int (length ?data) \<le> M"
    using Suc.prems(1) [rule_format, of 0] by simp
  have fits: "int (length acc) + int (length ?data) \<le> dst_size"
  proof -
    have "0 \<le> int k * M"
    proof (cases "k = 0")
      case True then show ?thesis by simp
    next
      case False
      have "0 \<le> int (length ?data)" by simp
      with d0 have "0 \<le> M" by linarith
      then show ?thesis by simp
    qed
    moreover have "int (Suc k) * M = M + int k * M"
      by (simp add: algebra_simps)
    ultimately show ?thesis
      using Suc.prems(2) d0 by linarith
  qed
  have rest: "\<forall>j<k. int (length (disc_read_sector d ((i + 1) + int j) fmt msk)) \<le> M"
  proof (intro allI impI)
    fix j assume "j < k"
    then have "Suc j < Suc k" by simp
    from Suc.prems(1) [rule_format, OF this]
    show "int (length (disc_read_sector d ((i + 1) + int j) fmt msk)) \<le> M"
      by (simp add: algebra_simps)
  qed
  have room: "int (length (acc @ ?data)) + int k * M \<le> dst_size"
  proof -
    have "int (Suc k) * M = M + int k * M"
      by (simp add: algebra_simps)
    then show ?thesis
      using Suc.prems(2) d0 by simp
  qed
  have ih: "read_sectors_loop d fmt msk (i + 1) k dst_size (acc @ ?data) =
      Inr ((acc @ ?data) @ concat (map (\<lambda>j. disc_read_sector d ((i + 1) + int j) fmt msk) [0..<k]))"
    by (rule Suc.IH [OF rest room])
  have shift: "map (\<lambda>j. disc_read_sector d (i + int j) fmt msk) [0..<Suc k] =
      ?data # map (\<lambda>j. disc_read_sector d ((i + 1) + int j) fmt msk) [0..<k]"
  proof -
    have "[0..<Suc k] = 0 # map Suc [0..<k]"
      by (simp add: upt_conv_Cons map_Suc_upt del: upt_Suc)
    then show ?thesis
      by (simp add: comp_def algebra_simps del: upt_Suc)
  qed
  show ?case
    using fits ih by (simp add: Let_def shift del: upt_Suc)
qed

lemma gd_transitions_at_simps:
  "gd_transitions_at STATE_READ_ATA_DATA EVENT_PIO_WRITE = Some CB_gdrom_pio_write"
  "gd_transitions_at STATE_READ_SPI_DATA EVENT_PIO_WRITE = Some CB_gdrom_pio_write"
  "gd_transitions_at STATE_READ_ATA_DATA EVENT_SPI_CMD = Some CB_gdrom_spi_cmd"
  "gd_transitions_at STATE_READ_SPI_DATA EVENT_SPI_DATA = Some CB_gdrom_spi_data"
  "gd_transitions_at STATE_WRITE_SPI_DATA EVENT_PIO_READ = Some CB_gdrom_pio_read"
  "gd_transitions_at STATE_WRITE_DMA_DATA EVENT_PIO_READ = Some CB_gdrom_pio_read"
  by (simp_all add: gd_transitions_at_def gd_transitions_def)

lemma packet_word:
  assumes "state gd = STATE_READ_ATA_DATA" "0 \<le> pio_head gd" "pio_head gd + 2 < 12"
  shows "REG_W32_GD_DATA p gd w =
     Inr (gd\<lparr>pio_buffer := (pio_buffer gd)
                (pio_head gd := ucast (w AND 0xffff),
                 pio_head gd + 1 := ucast (drop_bit 8 (w AND 0xffff))),
             pio_head := pio_head gd + 2\<rparr>)"
  using assms
  by (simp add: REG_W32_GD_DATA_def sizeof_buffer_def Let_def gd_transitions_at_simps
      GD_SPI_CMD_SIZE_def)

lemma packet_last_word:
  assumes "state gd = STATE_READ_ATA_DATA" "pio_head gd = 10"
  shows "REG_W32_GD_DATA p gd w =
     gdrom_spi_cmd p
       (gd\<lparr>pio_buffer := (pio_buffer gd)
                (10 := ucast (w AND 0xffff), 11 := ucast (drop_bit 8 (w AND 0xffff))),
           pio_head := 12\<rparr>) 0"
  using assms
  by (simp add: REG_W32_GD_DATA_def sizeof_buffer_def Let_def gd_transitions_at_simps
      GD_SPI_CMD_SIZE_def)

lemma packet_written:
  assumes "state gd = STATE_READ_ATA_DATA" "pio_head gd = 0"
  shows "gdrom_run p gd [W32_GD_DATA w0, W32_GD_DATA w1, W32_GD_DATA w2, W32_GD_DATA w3,
                         W32_GD_DATA w4, W32_GD_DATA w5] =
     gdrom_spi_cmd p
       (gd\<lparr>pio_buffer := (pio_buffer gd)
                (0 := ucast (w0 AND 0xffff), 1 := ucast (drop_bit 8 (w0 AND 0xffff)),
                 2 := ucast (w1 AND 0xffff), 3 := ucast (drop_bit 8 (w1 AND 0xffff)),
                 4 := ucast (w2 AND 0xffff), 5 := ucast (drop_bit 8 (w2 AND 0xffff)),
                 6 := ucast (w3 AND 0xffff), 7 := ucast (drop_bit 8 (w3 AND 0xffff)),
                 8 := ucast (w4 AND 0xffff), 9 := ucast (drop_bit 8 (w4 AND 0xffff)),
                 10 := ucast (w5 AND 0xffff), 11 := ucast (drop_bit 8 (w5 AND 0xffff))),
           pio_head := 12\<rparr>) 0"
  using assms
  by (simp add: packet_word packet_last_word split: sum.splits)

lemma gdrom_run_step:
  "gdrom_op p gd op = Inr gd' \<Longrightarrow> gdrom_run p gd (op # ops) = gdrom_run p gd' ops"
  by simp

lemma req_ses_packet_state_reached:
  "gdrom_run example_types (gdrom_create example_types)
     [SET_DISC (Some example_disc), W32_GD_STATUS_COMMAND 0xa0,
      W32_GD_DATA 0x0015, W32_GD_DATA 0, W32_GD_DATA 2, W32_GD_DATA 0, W32_GD_DATA 0,
      W32_GD_DATA 0]
   = gdrom_spi_cmd example_types req_ses_packet_state 0"
proof -
  define gd where "gd = (gdrom_set_disc example_types (gdrom_create example_types) (Some example_disc))
       \<lparr>status := \<lparr>CHECK = False, DRQ = True, DRDY = False, BSY = False\<rparr>,
        ireason := \<lparr>CoD = True, IO = False\<rparr>,
        state := STATE_READ_ATA_DATA, pio_head := 0\<rparr>"
  have s1: "gdrom_op example_types (gdrom_create example_types) (SET_DISC (Some example_disc))
        = Inr (gdrom_set_disc example_types (gdrom_create example_types) (Some example_disc))"
    by simp
  have s2: "gdrom_op example_types
          (gdrom_set_disc example_types (gdrom_create example_types) (Some example_disc))
          (W32_GD_STATUS_COMMAND 0xa0)
        = Inr gd"
    by (simp add: gd_def REG_W32_GD_STATUS_COMMAND_def gd_transitions_at_ata_cmd gdrom_ata_cmd_def
        example_defs gdrom_set_disc_def Let_def)
  have st: "state gd = STATE_READ_ATA_DATA" "pio_head gd = 0"
    by (simp_all add: gd_def)
  have buf: "pio_buffer gd = (\<lambda>i. 0)"
    by (simp add: gd_def example_defs gdrom_set_disc_def Let_def)
  have eq: "gd\<lparr>pio_buffer := (pio_buffer gd)
                (0 := ucast ((0x0015 :: 32 word) AND 0xffff),
                 1 := ucast (drop_bit 8 ((0x0015 :: 32 word) AND 0xffff)),
                 2 := ucast ((0 :: 32 word) AND 0xffff),
                 3 := ucast (drop_bit 8 ((0 :: 32 word) AND 0xffff)),
                 4 := ucast ((2 :: 32 word) AND 0xffff),
                 5 := ucast (drop_bit 8 ((2 :: 32 word) AND 0xffff)),
                 6 := ucast ((0 :: 32 word) AND 0xffff),
                 7 := ucast (drop_bit 8 ((0 :: 32 word) AND 0xffff)),
                 8 := ucast ((0 :: 32 word) AND 0xffff),
                 9 := ucast (drop_bit 8 ((0 :: 32 word) AND 0xffff)),
                 10 := ucast ((0 :: 32 word) AND 0xffff),
                 11 := ucast (drop_bit 8 ((0 :: 32 word) AND 0xffff))),
           pio_head := 12\<rparr> = req_ses_packet_state"
    by (simp add: buf) (simp add: gd_def req_ses_packet_state_def)
  show ?thesis
    unfolding gdrom_run_step [OF s1] gdrom_run_step [OF s2] packet_written [OF st] eq
    by (rule refl)
qed

lemma spi_write_state:
  "gdrom_spi_write gd data sz = Inr gd' \<Longrightarrow>
     cdr_num_sectors gd' = 0 \<and> state gd' = STATE_WRITE_SPI_DATA \<and> pio_size gd' < sizeof_buffer"
  by (auto simp add: gdrom_spi_write_def holly_raise_interrupt_def split: if_splits)

lemma spi_read_result:
  "cdr_num_sectors (gdrom_spi_read gd offset sz) = 0"
  "pio_head (gdrom_spi_read gd offset sz) = 0"
  "pio_size (gdrom_spi_read gd offset sz) = sz"
  "state (gdrom_spi_read gd offset sz) = STATE_READ_SPI_DATA"
  by (simp_all add: gdrom_spi_read_def holly_raise_interrupt_def)

lemma spi_transfer_result:
  assumes cmd: "spi_cmd_of p (uint (pio_buffer gd 0)) \<in>
      {GD_SPI_REQ_STAT, GD_SPI_REQ_MODE, GD_SPI_REQ_ERROR, GD_SPI_GET_TOC, GD_SPI_REQ_SES,
       GD_SPI_GET_SCD, GD_SPI_REQ_SECU, GD_SPI_SET_MODE}"
    and ret: "gdrom_spi_cmd p gd arg = Inr gd'"
  shows "cdr_num_sectors gd' = 0"
    and "spi_cmd_of p (uint (pio_buffer gd 0)) \<noteq> GD_SPI_SET_MODE \<Longrightarrow>
           state gd' = STATE_WRITE_SPI_DATA \<and> pio_size gd' < sizeof_buffer"
proof -
  show "cdr_num_sectors gd' = 0"
    using cmd ret
    by (auto simp add: gdrom_spi_cmd_def Let_def spi_read_result
        split: sum.splits dest!: spi_write_state)
  show "state gd' = STATE_WRITE_SPI_DATA \<and> pio_size gd' < sizeof_buffer"
    if "spi_cmd_of p (uint (pio_buffer gd 0)) \<noteq> GD_SPI_SET_MODE"
    using cmd ret that
    by (auto simp add: gdrom_spi_cmd_def Let_def
        split: sum.splits dest!: spi_write_state)
qed

lemma pio_read_exhausted_no_sectors:
  assumes "cdr_num_sectors gd = 0"
  shows "gdrom_pio_read p (gd\<lparr>pio_head := h\<rparr>) arg =
           Inr (if h = pio_size gd then gdrom_spi_end (gd\<lparr>pio_head := h\<rparr>)
                else gd\<lparr>pio_head := h\<rparr>)"
  using assms by (simp add: gdrom_pio_read_def)

lemma data_read_last_word:
  assumes "cdr_num_sectors gd = 0" "state gd = STATE_WRITE_SPI_DATA"
    "pio_size gd < sizeof_buffer" "0 \<le> h" "h + 2 = pio_size gd"
  shows "map_sum id snd (REG_R32_GD_DATA p (gd\<lparr>pio_head := h\<rparr>)) =
           Inr (gdrom_spi_end (gd\<lparr>pio_head := pio_size gd\<rparr>))"
  using assms
  by (simp add: REG_R32_GD_DATA_def Let_def gd_transitions_at_simps gdrom_pio_read_def)

lemma dma_read_refill_empty:
  assumes ex: "dma_size gd \<le> dma_head gd"
    and rd: "gdrom_read_sectors gd (cdr_first_sector gd) (cdr_secfmt gd) (cdr_secmask gd)
        (min (cdr_num_sectors gd) (sizeof_buffer div DISC_MAX_SECTOR_SIZE p)) sizeof_buffer = Inr []"
  shows "gdrom_dma_read p gd n = Inl CHECK_GT_n"
proof (cases "cdr_dma gd \<noteq> 0")
  case True
  with ex rd show ?thesis
    by (simp add: gdrom_dma_read_def gdrom_spi_cdread_def Let_def)
next
  case False
  with ex rd show ?thesis
    by (simp add: gdrom_dma_read_def gdrom_spi_cdread_def Let_def holly_raise_interrupt_def)
qed

lemma dma_read_state:
  "map_sum id (\<lambda>r. snd (snd r)) (gdrom_dma_read p gd0 n0) =
     (case (if dma_head gd0 \<ge> dma_size gd0 then gdrom_spi_cdread p gd0 else Inr gd0) of
        Inl e \<Rightarrow> Inl e
      | Inr gd \<Rightarrow>
          if \<not> min n0 (dma_size gd - dma_head gd) > 0 then Inl CHECK_GT_n
          else if \<not> (0 \<le> dma_head gd
                      \<and> dma_head gd + min n0 (dma_size gd - dma_head gd) \<le> sizeof_buffer)
          then Inl OUT_OF_BOUNDS
          else if dma_head gd + min n0 (dma_size gd - dma_head gd) \<ge> dma_size gd
          then Inr (gdrom_spi_end
                      (gd\<lparr>dma_head := dma_head gd + min n0 (dma_size gd - dma_head gd)\<rparr>))
          else Inr (gd\<lparr>dma_head := dma_head gd + min n0 (dma_size gd - dma_head gd)\<rparr>))"
  by (simp add: gdrom_dma_read_def Let_def split: sum.splits)

lemma read_sectors_loop_numeral:
  "read_sectors_loop d fmt msk i (numeral k) dst_size acc =
     (let data = disc_read_sector d i fmt msk in
      if \<not> int (length acc) + int (length data) \<le> dst_size then Inl CHECK_LE_read
      else read_sectors_loop d fmt msk (i + 1) (pred_numeral k) dst_size (acc @ data))"
  by (simp add: numeral_eq_Suc)

lemma length_example_sector: "length example_sector = 2048"
  by (simp add: example_sector_def)

lemma replicate_numeral_Cons: "replicate (numeral k) x = x # replicate (pred_numeral k) x"
  by (simp add: numeral_eq_Suc)

lemma dma_read_last_completes:
  assumes "dma_head gd < dma_size gd" "0 \<le> dma_head gd" "dma_size gd \<le> sizeof_buffer"
    and "dma_size gd - dma_head gd \<le> n"
  shows "map_sum id (\<lambda>r. snd (snd r)) (gdrom_dma_read p gd n) =
           Inr (gdrom_spi_end (gd\<lparr>dma_head := dma_size gd\<rparr>))"
  using assms by (simp add: dma_read_state min_def)
























lemma buffer_bytes_memcpy: "buffer_bytes (memcpy buf 0 bs) 0 (int (length bs)) = bs"
  by (rule nth_equalityI) (simp_all add: buffer_bytes_def memcpy_def)

lemma read_sectors_chunk:
  assumes fit: "\<forall>d fad. disc gd = Some d \<longrightarrow>
                  int (length (disc_read_sector d fad fmt msk)) \<le> DISC_MAX_SECTOR_SIZE p"
    and pos: "0 < DISC_MAX_SECTOR_SIZE p"
    and n: "n \<le> buffer_sectors p"
  shows "gdrom_read_sectors gd fad fmt msk n sizeof_buffer
           = Inr (chunk_sectors (disc gd) fmt msk fad n)"
proof (cases "disc gd")
  case None
  then show ?thesis
    by (simp add: gdrom_read_sectors_def chunk_sectors_def)
next
  case (Some d)
  let ?M = "DISC_MAX_SECTOR_SIZE p"
  have fit': "\<forall>j<nat n. int (length (disc_read_sector d (fad + int j) fmt msk)) \<le> ?M"
    using fit Some by simp
  have "int (nat n) * ?M \<le> sizeof_buffer"
  proof (cases "n \<le> 0")
    case True
    then show ?thesis by (simp add: sizeof_buffer_def)
  next
    case False
    then have "int (nat n) = n" by simp
    moreover have "n * ?M \<le> buffer_sectors p * ?M"
      using n pos by (simp add: mult_right_mono)
    moreover have "buffer_sectors p * ?M \<le> sizeof_buffer"
    proof -
      have "sizeof_buffer div ?M * ?M + sizeof_buffer mod ?M = sizeof_buffer"
        by (rule div_mult_mod_eq)
      moreover have "0 \<le> sizeof_buffer mod ?M"
        using pos by simp
      ultimately show ?thesis
        unfolding buffer_sectors_def by linarith
    qed
    ultimately show ?thesis by simp
  qed
  then have "read_sectors_loop d fmt msk fad (nat n) sizeof_buffer [] =
      Inr ([] @ concat (map (\<lambda>j. disc_read_sector d (fad + int j) fmt msk) [0..<nat n]))"
    using fit' by (intro read_sectors_loop_ok) simp_all
  then show ?thesis
    using Some by (simp add: gdrom_read_sectors_def chunk_sectors_def)
qed

lemma cdread_chunk:
  assumes fit: "\<forall>d fad. disc gd = Some d \<longrightarrow>
                  int (length (disc_read_sector d fad (cdr_secfmt gd) (cdr_secmask gd)))
                    \<le> DISC_MAX_SECTOR_SIZE p"
    and pos: "0 < DISC_MAX_SECTOR_SIZE p"
  shows "\<exists>gd'. gdrom_spi_cdread p gd = Inr gd'
           \<and> cdr_first_sector gd' = cdr_first_sector gd + min (cdr_num_sectors gd) (buffer_sectors p)
           \<and> cdr_num_sectors gd' = cdr_num_sectors gd - min (cdr_num_sectors gd) (buffer_sectors p)
           \<and> target_bytes gd' =
               chunk_sectors (disc gd) (cdr_secfmt gd) (cdr_secmask gd) (cdr_first_sector gd)
                 (min (cdr_num_sectors gd) (buffer_sectors p))
           \<and> disc gd' = disc gd \<and> cdr_secfmt gd' = cdr_secfmt gd
           \<and> cdr_secmask gd' = cdr_secmask gd \<and> cdr_dma gd' = cdr_dma gd"
proof -
  let ?n = "min (cdr_num_sectors gd) (buffer_sectors p)"
  have rd: "gdrom_read_sectors gd (cdr_first_sector gd) (cdr_secfmt gd) (cdr_secmask gd) ?n
              sizeof_buffer
            = Inr (chunk_sectors (disc gd) (cdr_secfmt gd) (cdr_secmask gd) (cdr_first_sector gd) ?n)"
    using fit pos by (rule read_sectors_chunk) simp
  show ?thesis
  proof (cases "cdr_dma gd \<noteq> 0")
    case True
    then show ?thesis
      using rd
      by (simp add: gdrom_spi_cdread_def Let_def target_bytes_def buffer_bytes_memcpy
          flip: buffer_sectors_def)
  next
    case False
    then show ?thesis
      using rd
      by (simp add: gdrom_spi_cdread_def Let_def target_bytes_def buffer_bytes_memcpy
          holly_raise_interrupt_def flip: buffer_sectors_def)
  qed
qed

lemma min_chunk_step:
  fixes R C :: int
  assumes "0 \<le> C"
  shows "min R (int j * C) + min (R - min R (int j * C)) C = min R (int (Suc j) * C)"
proof -
  have "int (Suc j) * C = int j * C + C"
    by (simp add: algebra_simps)
  then show ?thesis
    using assms by (simp add: min_def)
qed

lemma cdread_chunks_state:
  assumes fit: "\<forall>d fad. disc gd = Some d \<longrightarrow>
                  int (length (disc_read_sector d fad (cdr_secfmt gd) (cdr_secmask gd)))
                    \<le> DISC_MAX_SECTOR_SIZE p"
    and pos: "0 < DISC_MAX_SECTOR_SIZE p"
    and nonneg: "0 \<le> cdr_num_sectors gd"
  shows "\<exists>gd'. cdread_chunks p j gd = Inr gd'
           \<and> cdr_first_sector gd' =
               cdr_first_sector gd + min (cdr_num_sectors gd) (int j * buffer_sectors p)
           \<and> cdr_num_sectors gd' =
               cdr_num_sectors gd - min (cdr_num_sectors gd) (int j * buffer_sectors p)
           \<and> disc gd' = disc gd \<and> cdr_secfmt gd' = cdr_secfmt gd
           \<and> cdr_secmask gd' = cdr_secmask gd \<and> cdr_dma gd' = cdr_dma gd"
proof (induction j)
  case 0
  show ?case using nonneg by simp
next
  case (Suc j)
  let ?R = "cdr_num_sectors gd" and ?C = "buffer_sectors p"
  have C: "0 \<le> ?C"
    using pos by (simp add: buffer_sectors_def sizeof_buffer_def pos_imp_zdiv_nonneg_iff)
  from Suc.IH obtain g where
    g: "cdread_chunks p j gd = Inr g"
    and g1: "cdr_first_sector g = cdr_first_sector gd + min ?R (int j * ?C)"
    and g2: "cdr_num_sectors g = ?R - min ?R (int j * ?C)"
    and g3: "disc g = disc gd" "cdr_secfmt g = cdr_secfmt gd" "cdr_secmask g = cdr_secmask gd"
      "cdr_dma g = cdr_dma gd"
    by blast
  have fitg: "\<forall>d fad. disc g = Some d \<longrightarrow>
                  int (length (disc_read_sector d fad (cdr_secfmt g) (cdr_secmask g)))
                    \<le> DISC_MAX_SECTOR_SIZE p"
    using fit g3 by simp
  from cdread_chunk [OF fitg pos] obtain g' where
    g': "gdrom_spi_cdread p g = Inr g'"
    and h1: "cdr_first_sector g' = cdr_first_sector g + min (cdr_num_sectors g) ?C"
    and h2: "cdr_num_sectors g' = cdr_num_sectors g - min (cdr_num_sectors g) ?C"
    and h3: "disc g' = disc g" "cdr_secfmt g' = cdr_secfmt g" "cdr_secmask g' = cdr_secmask g"
      "cdr_dma g' = cdr_dma g"
    by blast
  have step: "min ?R (int j * ?C) + min (?R - min ?R (int j * ?C)) ?C = min ?R (int (Suc j) * ?C)"
    using C by (rule min_chunk_step)
  have "cdread_chunks p (Suc j) gd = Inr g'"
    using g g' by simp
  moreover have "cdr_first_sector g' = cdr_first_sector gd + min ?R (int (Suc j) * ?C)"
    using h1 g1 g2 step by linarith
  moreover have "cdr_num_sectors g' = ?R - min ?R (int (Suc j) * ?C)"
    using h2 g2 step by linarith
  ultimately show ?case
    using h3 g3 by simp
qed

lemma chunks_needed:
  fixes R C :: int
  assumes "0 < C"
  shows "R - min R (int j * C) = 0 \<longleftrightarrow> nat \<lceil>real_of_int R / real_of_int C\<rceil> \<le> j"
proof -
  have "R - min R (int j * C) = 0 \<longleftrightarrow> R \<le> int j * C"
    by (simp add: min_def)
  also have "\<dots> \<longleftrightarrow> real_of_int R \<le> real_of_int (int j) * real_of_int C"
    by (metis of_int_le_iff of_int_mult)
  also have "\<dots> \<longleftrightarrow> real_of_int R / real_of_int C \<le> real_of_int (int j)"
    using assms by (simp add: pos_divide_le_eq)
  also have "\<dots> \<longleftrightarrow> \<lceil>real_of_int R / real_of_int C\<rceil> \<le> int j"
    by (simp add: ceiling_le_iff)
  also have "\<dots> \<longleftrightarrow> nat \<lceil>real_of_int R / real_of_int C\<rceil> \<le> j"
    by (simp add: nat_le_iff)
  finally show ?thesis .
qed

lemma gdrom_run_append:
  "gdrom_run p gd (xs @ ys) =
     (case gdrom_run p gd xs of Inl e \<Rightarrow> Inl e | Inr gd' \<Rightarrow> gdrom_run p gd' ys)"
  by (induction xs arbitrary: gd) (simp_all split: sum.splits)

lemma data_read_past_size:
  assumes "state gd = STATE_WRITE_SPI_DATA" "pio_size gd < pio_head gd + 2"
  shows "gdrom_op p gd R32_GD_DATA = Inr (gd\<lparr>pio_head := pio_head gd + 2\<rparr>)"
  using assms
  by (simp add: REG_R32_GD_DATA_def Let_def gd_transitions_at_simps gdrom_pio_read_def)

lemma data_reads_advance_head:
  assumes "state gd = STATE_WRITE_SPI_DATA" "pio_size gd < pio_head gd + 2"
  shows "gdrom_run p gd (replicate n R32_GD_DATA) =
           Inr (gd\<lparr>pio_head := pio_head gd + 2 * int n\<rparr>)"
  using assms
proof (induction n arbitrary: gd)
  case 0
  then show ?case by simp
next
  case (Suc n)
  let ?g = "gd\<lparr>pio_head := pio_head gd + 2\<rparr>"
  have step: "gdrom_op p gd R32_GD_DATA = Inr ?g"
    using Suc.prems by (rule data_read_past_size)
  have "gdrom_run p ?g (replicate n R32_GD_DATA) = Inr (?g\<lparr>pio_head := pio_head ?g + 2 * int n\<rparr>)"
    using Suc.prems by (intro Suc.IH) simp_all
  then have "gdrom_run p gd (R32_GD_DATA # replicate n R32_GD_DATA)
               = Inr (gd\<lparr>pio_head := pio_head gd + 2 * int (Suc n)\<rparr>)"
    unfolding gdrom_run_step [OF step] by (simp add: algebra_simps)
  then show ?case by simp
qed

text \<open>
  The head of the PIO buffer can pass the capacity. The guest issues \<^verbatim>\<open>PACKET_CMD\<close> and a
  \<^verbatim>\<open>REQ_MODE\<close> packet that asks for 0 bytes, and then reads the data register 32769 times:
  no read finds the head equal to the size, every read returns, and the head ends at
  65538, beyond the 65536 bytes of the buffer.
\<close>

lemma pio_head_passes_capacity:
  "map_sum id (\<lambda>gd. (pio_head gd, pio_size gd))
     (gdrom_run example_types (gdrom_create example_types)
        ([W32_GD_STATUS_COMMAND 0xa0, W32_GD_DATA 0x0011, W32_GD_DATA 0, W32_GD_DATA 0,
          W32_GD_DATA 0, W32_GD_DATA 0, W32_GD_DATA 0] @ replicate 32769 R32_GD_DATA))
   = Inr (65538, 0)"
proof -
  let ?pre = "[W32_GD_STATUS_COMMAND 0xa0, W32_GD_DATA 0x0011, W32_GD_DATA 0, W32_GD_DATA 0,
          W32_GD_DATA 0, W32_GD_DATA 0, W32_GD_DATA 0]"
  have "map_sum id (\<lambda>gd. (state gd, pio_head gd, pio_size gd))
          (gdrom_run example_types (gdrom_create example_types) ?pre)
        = Inr (STATE_WRITE_SPI_DATA, 0, 0)"
    by (simp add: example_defs gdrom_set_disc_def gdrom_ata_cmd_def gd_transitions_at_def
        gd_transitions_def GD_SPI_CMD_SIZE_def sizeof_buffer_def REG_W32_GD_STATUS_COMMAND_def
        REG_W32_GD_DATA_def gdrom_spi_cmd_def gdrom_spi_write_def holly_raise_interrupt_def
        Let_def)
  then obtain S where S: "gdrom_run example_types (gdrom_create example_types) ?pre = Inr S"
    and st: "state S = STATE_WRITE_SPI_DATA" and hd: "pio_head S = 0" and sz: "pio_size S = 0"
    by (cases "gdrom_run example_types (gdrom_create example_types) ?pre") auto
  have "gdrom_run example_types (gdrom_create example_types) (?pre @ replicate 32769 R32_GD_DATA)
          = gdrom_run example_types S (replicate 32769 R32_GD_DATA)"
    unfolding gdrom_run_append S by simp
  also have "\<dots> = Inr (S\<lparr>pio_head := pio_head S + 2 * int 32769\<rparr>)"
    by (rule data_reads_advance_head) (simp_all add: st hd sz)
  finally show ?thesis
    by (simp add: hd sz)
qed

subsection \<open>Frame addresses\<close>

text \<open>
  C7. \<^verbatim>\<open>gdrom_get_fad\<close> on the packet bytes \<open>a\<close>, \<open>b\<close>, \<open>c\<close> is \<open>a * 4500 + b * 75 + c\<close>
  when the MSF bit is set, and \<open>(a << 16) | (b << 8) | c\<close> otherwise, which is the number
  \<open>a * 65536 + b * 256 + c\<close>. Two seconds in MSF mode are frame 150, and the bytes
  1, 0, 0 in FAD mode are \<open>0x010000\<close>.
\<close>

theorem gdrom_get_fad_decode:
  "gdrom_get_fad a b c msf =
     (if msf \<noteq> 0 then uint a * 4500 + uint b * 75 + uint c
      else push_bit 16 (uint a) OR push_bit 8 (uint b) OR uint c)
   \<and> gdrom_get_fad a b c 0 = uint a * 65536 + uint b * 256 + uint c
   \<and> gdrom_get_fad 0 2 0 1 = 150
   \<and> gdrom_get_fad 1 0 0 0 = 0x010000"
  by (simp add: gdrom_get_fad_def fad_linear)

subsection \<open>Event dispatch\<close>

text \<open>
  C5. \<^verbatim>\<open>gdrom_event\<close> looks the handler up in the table at the current state and the
  event; with no handler there the \<^verbatim>\<open>CHECK\<close> fails, and otherwise the result is that
  handler's. \<^verbatim>\<open>EVENT_ATA_CMD\<close> has the ATA command handler in each of the five states, and
  the table has the eleven entries listed and no other.
\<close>

theorem gdrom_event_dispatch:
  "gdrom_event p gd ev arg =
     (case gd_transitions_at (state gd) ev of
        None \<Rightarrow> Inl CHECK_cb
      | Some CB_gdrom_ata_cmd \<Rightarrow> gdrom_ata_cmd p gd arg
      | Some CB_gdrom_pio_write \<Rightarrow> gdrom_pio_write p gd arg
      | Some CB_gdrom_spi_cmd \<Rightarrow> gdrom_spi_cmd p gd arg
      | Some CB_gdrom_pio_read \<Rightarrow> gdrom_pio_read p gd arg
      | Some CB_gdrom_spi_data \<Rightarrow> gdrom_spi_data gd arg)
   \<and> (\<forall>s. gd_transitions_at s EVENT_ATA_CMD = Some CB_gdrom_ata_cmd)
   \<and> {(s, e, cb). gd_transitions_at s e = Some cb} =
       {(STATE_READ_ATA_CMD, EVENT_ATA_CMD, CB_gdrom_ata_cmd),
        (STATE_READ_ATA_DATA, EVENT_ATA_CMD, CB_gdrom_ata_cmd),
        (STATE_READ_ATA_DATA, EVENT_PIO_WRITE, CB_gdrom_pio_write),
        (STATE_READ_ATA_DATA, EVENT_SPI_CMD, CB_gdrom_spi_cmd),
        (STATE_READ_SPI_DATA, EVENT_ATA_CMD, CB_gdrom_ata_cmd),
        (STATE_READ_SPI_DATA, EVENT_PIO_WRITE, CB_gdrom_pio_write),
        (STATE_READ_SPI_DATA, EVENT_SPI_DATA, CB_gdrom_spi_data),
        (STATE_WRITE_SPI_DATA, EVENT_ATA_CMD, CB_gdrom_ata_cmd),
        (STATE_WRITE_SPI_DATA, EVENT_PIO_READ, CB_gdrom_pio_read),
        (STATE_WRITE_DMA_DATA, EVENT_ATA_CMD, CB_gdrom_ata_cmd),
        (STATE_WRITE_DMA_DATA, EVENT_PIO_READ, CB_gdrom_pio_read)}"
  (is "?dispatch \<and> ?ata \<and> ?table = ?listed")
proof (intro conjI)
  show ?dispatch
    by (subst gdrom_event.simps) (rule refl)
  show ?ata
    by (simp add: gd_transitions_at_ata_cmd)
  show "?table = ?listed"
  proof (rule set_eqI)
    fix x :: "gd_state \<times> gd_event \<times> gd_event_cb"
    obtain s e cb where x: "x = (s, e, cb)"
      by (cases x) auto
    show "x \<in> ?table \<longleftrightarrow> x \<in> ?listed"
      unfolding x
      by (cases s; cases e) (auto simp add: gd_transitions_at_def gd_transitions_def)
  qed
qed

subsection \<open>The ATA command NOP\<close>

text \<open>
  C8. A write of NOP to the command register succeeds in every state. It leaves the error
  register with the abort bit alone, \<open>CHECK\<close> and \<open>DRDY\<close> set and \<open>BSY\<close> clear, the
  drive's interrupt raised and the state \<^verbatim>\<open>STATE_READ_ATA_CMD\<close>; nothing else changes.
  Any other ATA command that returns leaves the error register and \<open>CHECK\<close> clear: the
  handler clears both before it looks at the command.
\<close>

theorem ata_nop_completes:
  "(ata_cmd_of p (sint v) = GD_ATA_NOP \<longrightarrow>
      REG_W32_GD_STATUS_COMMAND p gd v =
        Inr (gd\<lparr>error := \<lparr>ABRT = True\<rparr>,
                status := (status gd)\<lparr>CHECK := True, DRDY := True, BSY := False\<rparr>,
                holly_G1GDINT := True,
                holly_raised := Suc (holly_raised gd),
                state := STATE_READ_ATA_CMD\<rparr>))
   \<and> (ata_cmd_of p cmd \<noteq> GD_ATA_NOP \<longrightarrow> gdrom_ata_cmd p gd cmd = Inr gd' \<longrightarrow>
        error gd' = \<lparr>ABRT = False\<rparr> \<and> \<not> CHECK (status gd'))"
proof (intro conjI impI)
  assume nop: "ata_cmd_of p (sint v) = GD_ATA_NOP"
  have "REG_W32_GD_STATUS_COMMAND p gd v = gdrom_ata_cmd p gd (sint v)"
    by (simp add: REG_W32_GD_STATUS_COMMAND_def gd_transitions_at_ata_cmd)
  then show "REG_W32_GD_STATUS_COMMAND p gd v =
        Inr (gd\<lparr>error := \<lparr>ABRT = True\<rparr>,
                status := (status gd)\<lparr>CHECK := True, DRDY := True, BSY := False\<rparr>,
                holly_G1GDINT := True,
                holly_raised := Suc (holly_raised gd),
                state := STATE_READ_ATA_CMD\<rparr>)"
    using nop by (simp add: gdrom_ata_cmd_def gdrom_ata_end_def holly_raise_interrupt_def)
next
  assume other: "ata_cmd_of p cmd \<noteq> GD_ATA_NOP" and ret: "gdrom_ata_cmd p gd cmd = Inr gd'"
  show "error gd' = \<lparr>ABRT = False\<rparr>"
    using other ret
    by (cases "ata_cmd_of p cmd")
       (auto simp add: gdrom_ata_cmd_def gdrom_ata_end_def holly_raise_interrupt_def
          gdrom_set_disc_def set_disc_assign Let_def split: option.splits)
  show "\<not> CHECK (status gd')"
    using other ret
    by (cases "ata_cmd_of p cmd")
       (auto simp add: gdrom_ata_cmd_def gdrom_ata_end_def holly_raise_interrupt_def
          gdrom_set_disc_def set_disc_assign Let_def split: option.splits)
qed

theorem ata_nop_completes_witness:
  "ata_cmd_of example_types (sint (0 :: 32 word)) = GD_ATA_NOP
   \<and> REG_W32_GD_STATUS_COMMAND example_types (gdrom_create example_types) 0 =
       Inr ((gdrom_create example_types)
              \<lparr>error := \<lparr>ABRT = True\<rparr>,
               status := \<lparr>CHECK = True, DRQ = False, DRDY = True, BSY = False\<rparr>,
               holly_G1GDINT := True,
               holly_raised := 1,
               state := STATE_READ_ATA_CMD\<rparr>)
   \<and> ata_cmd_of example_types 0xef \<noteq> GD_ATA_NOP
   \<and> gdrom_ata_cmd example_types (gdrom_create example_types) 0xef
       = Inr (gdrom_ata_end
                ((gdrom_create example_types)\<lparr>status := \<lparr>CHECK = False, DRQ = False, DRDY = False, BSY = True\<rparr>\<rparr>))
   \<and> error (gdrom_ata_end
                ((gdrom_create example_types)\<lparr>status := \<lparr>CHECK = False, DRQ = False, DRDY = False, BSY = True\<rparr>\<rparr>))
       = \<lparr>ABRT = False\<rparr>"
  using ata_nop_completes [of example_types 0 "gdrom_create example_types" "0xef"
      "gdrom_ata_end
         ((gdrom_create example_types)\<lparr>status := \<lparr>CHECK = False, DRQ = False, DRDY = False, BSY = True\<rparr>\<rparr>)"]
  by (simp add: example_types_def example_ata_cmd_of_def gdrom_create_def gdrom_init_def
      gdrom_zeroed_def gdrom_set_disc_def Let_def gdrom_ata_cmd_def gdrom_ata_end_def
      holly_raise_interrupt_def)

subsection \<open>The soft reset\<close>

text \<open>
  C3, as amended. Attaching no disc leaves the drive status \<^verbatim>\<open>GD_STATUS_NODISC\<close> and the
  error register zero, and leaves the byte-count register as it was: the soft reset
  does not write it. Attaching a disc leaves the drive status \<^verbatim>\<open>GD_STATUS_PAUSE\<close> and the
  format field equal to the format the disc reports.
\<close>

theorem set_disc_soft_reset:
  "sectnum_status (sectnum (gdrom_set_disc p gd None)) = GD_STATUS_NODISC p
   \<and> error (gdrom_set_disc p gd None) = \<lparr>ABRT = False\<rparr>
   \<and> byte_count (gdrom_set_disc p gd None) = byte_count gd
   \<and> sectnum_status (sectnum (gdrom_set_disc p gd (Some d))) = GD_STATUS_PAUSE p
   \<and> sectnum_format (sectnum (gdrom_set_disc p gd (Some d))) = disc_get_format d"
  by (simp add: gdrom_set_disc_def set_disc_assign Let_def)

text \<open>
  C3 as stated fails: on a new controller, the guest writes 5 to the low byte-count
  register and then no disc is attached; the byte count is still 5.
\<close>

theorem set_disc_byte_count_counterexample:
  "map_sum id byte_count
     (gdrom_run example_types (gdrom_create example_types) [W32_GD_BYCTLLO 5, SET_DISC None])
   = Inr 5"
  by (simp add: gdrom_create_def gdrom_init_def gdrom_zeroed_def REG_W32_GD_BYCTLLO_def
      bytect_set_lo_def gdrom_set_disc_def Let_def)

subsection \<open>A DMA read with nothing to return\<close>

text \<open>
  C10. When the DMA buffer is exhausted and the refill that \<^verbatim>\<open>gdrom_dma_read\<close> triggers
  reads no byte, the step fails at \<^verbatim>\<open>CHECK_GT(n, 0)\<close>; it never returns 0 bytes. Two
  cases of it: no disc is attached, and no sector remains.
\<close>

theorem dma_read_no_bytes_fatal:
  "(dma_size gd \<le> dma_head gd \<longrightarrow>
      gdrom_read_sectors gd (cdr_first_sector gd) (cdr_secfmt gd) (cdr_secmask gd)
        (min (cdr_num_sectors gd) (sizeof_buffer div DISC_MAX_SECTOR_SIZE p)) sizeof_buffer = Inr [] \<longrightarrow>
      gdrom_dma_read p gd n = Inl CHECK_GT_n)
   \<and> (dma_size gd \<le> dma_head gd \<longrightarrow> disc gd = None \<longrightarrow>
        gdrom_dma_read p gd n = Inl CHECK_GT_n)
   \<and> (dma_size gd \<le> dma_head gd \<longrightarrow> cdr_num_sectors gd = 0 \<longrightarrow>
        gdrom_dma_read p gd n = Inl CHECK_GT_n)"
proof (intro conjI impI)
  assume "dma_size gd \<le> dma_head gd"
    and "gdrom_read_sectors gd (cdr_first_sector gd) (cdr_secfmt gd) (cdr_secmask gd)
        (min (cdr_num_sectors gd) (sizeof_buffer div DISC_MAX_SECTOR_SIZE p)) sizeof_buffer = Inr []"
  then show "gdrom_dma_read p gd n = Inl CHECK_GT_n"
    by (rule dma_read_refill_empty)
next
  assume "dma_size gd \<le> dma_head gd" and "disc gd = None"
  then show "gdrom_dma_read p gd n = Inl CHECK_GT_n"
    by (simp add: dma_read_refill_empty read_sectors_none)
next
  assume "dma_size gd \<le> dma_head gd" and "cdr_num_sectors gd = 0"
  then show "gdrom_dma_read p gd n = Inl CHECK_GT_n"
    by (simp add: dma_read_refill_empty read_sectors_zero)
qed

theorem dma_read_no_bytes_fatal_witness:
  "dma_size (gdrom_create example_types) \<le> dma_head (gdrom_create example_types)
   \<and> disc (gdrom_create example_types) = None
   \<and> cdr_num_sectors (gdrom_create example_types) = 0
   \<and> gdrom_read_sectors (gdrom_create example_types)
         (cdr_first_sector (gdrom_create example_types)) (cdr_secfmt (gdrom_create example_types))
         (cdr_secmask (gdrom_create example_types))
         (min (cdr_num_sectors (gdrom_create example_types))
            (sizeof_buffer div DISC_MAX_SECTOR_SIZE example_types)) sizeof_buffer = Inr []
   \<and> gdrom_dma_read example_types (gdrom_create example_types) 2352 = Inl CHECK_GT_n"
  using dma_read_no_bytes_fatal [of "gdrom_create example_types" example_types 2352]
  by (simp add: example_defs gdrom_set_disc_def gdrom_read_sectors_def Let_def)

subsection \<open>The transfer length of REQ_SES\<close>

text \<open>
  C6 fails on the code. A \<^verbatim>\<open>REQ_SES\<close> command reads the size the packet asks for (byte 4)
  and does not use it: when it returns, the transfer it has started has the length
  \<^verbatim>\<open>sizeof(struct gd_spi_session)\<close>, whatever byte 4 is.
\<close>

theorem req_ses_transfer_length:
  "spi_cmd_of p (uint (pio_buffer gd 0)) = GD_SPI_REQ_SES \<longrightarrow>
   gdrom_spi_cmd p gd arg = Inr gd' \<longrightarrow>
     pio_size gd' = sizeof_gd_spi_session p
     \<and> byte_count gd' = word_of_int (sizeof_gd_spi_session p)
     \<and> state gd' = STATE_WRITE_SPI_DATA"
  by (auto simp add: gdrom_spi_cmd_def gdrom_spi_write_def holly_raise_interrupt_def Let_def
      split: sum.splits if_splits)

theorem req_ses_transfer_length_witness:
  "spi_cmd_of example_types (uint (pio_buffer req_ses_packet_state 0)) = GD_SPI_REQ_SES
   \<and> uint (pio_buffer req_ses_packet_state 4) = 2
   \<and> map_sum id (\<lambda>gd'. (pio_size gd', byte_count gd', state gd'))
        (gdrom_spi_cmd example_types req_ses_packet_state 0) = Inr (6, 6, STATE_WRITE_SPI_DATA)"
proof -
  have ses: "spi_cmd_of example_types (uint (pio_buffer req_ses_packet_state 0)) = GD_SPI_REQ_SES"
    by (simp add: req_ses_packet_state_def example_types_def example_spi_cmd_of_def)
  have ret: "gdrom_spi_cmd example_types req_ses_packet_state 0
               = Inr (projr (gdrom_spi_cmd example_types req_ses_packet_state 0))"
    by (simp add: req_ses_packet_state_def example_defs gdrom_spi_cmd_def gdrom_get_session_def
        gdrom_spi_write_def gdrom_set_disc_def sizeof_buffer_def Let_def)
  have "uint (pio_buffer req_ses_packet_state 4) = 2"
    by (simp add: req_ses_packet_state_def)
  moreover note ses
  moreover from req_ses_transfer_length [rule_format, OF ses ret]
  have "map_sum id (\<lambda>gd'. (pio_size gd', byte_count gd', state gd'))
        (gdrom_spi_cmd example_types req_ses_packet_state 0) = Inr (6, 6, STATE_WRITE_SPI_DATA)"
    by (subst ret) (simp add: example_types_def)
  ultimately show ?thesis by simp
qed

subsection \<open>Starting a PIO transfer abandons a CD_READ\<close>

text \<open>
  C9. When one of the seven data-to-host commands or \<^verbatim>\<open>SET_MODE\<close> returns, the remaining
  sector count is 0. From then on \<^verbatim>\<open>gdrom_pio_read\<close>, wherever the head stands, ends the
  packet command when the head has reached the size and does nothing otherwise: it does
  not refill from the disc. After a data-to-host command the state is
  \<^verbatim>\<open>STATE_WRITE_SPI_DATA\<close>, and the read of the last word through the data register ends
  the packet command.
\<close>

theorem spi_transfer_resets_cdread:
  "spi_cmd_of p (uint (pio_buffer gd 0)) \<in>
      {GD_SPI_REQ_STAT, GD_SPI_REQ_MODE, GD_SPI_REQ_ERROR, GD_SPI_GET_TOC, GD_SPI_REQ_SES,
       GD_SPI_GET_SCD, GD_SPI_REQ_SECU, GD_SPI_SET_MODE} \<longrightarrow>
   gdrom_spi_cmd p gd arg = Inr gd' \<longrightarrow>
     cdr_num_sectors gd' = 0
     \<and> (\<forall>h. gdrom_pio_read p (gd'\<lparr>pio_head := h\<rparr>) 0 =
               Inr (if h = pio_size gd' then gdrom_spi_end (gd'\<lparr>pio_head := h\<rparr>)
                    else gd'\<lparr>pio_head := h\<rparr>))
     \<and> (spi_cmd_of p (uint (pio_buffer gd 0)) \<noteq> GD_SPI_SET_MODE \<longrightarrow>
          state gd' = STATE_WRITE_SPI_DATA
          \<and> (\<forall>h. 0 \<le> h \<longrightarrow> h + 2 = pio_size gd' \<longrightarrow>
                 map_sum id snd (REG_R32_GD_DATA p (gd'\<lparr>pio_head := h\<rparr>)) =
                   Inr (gdrom_spi_end (gd'\<lparr>pio_head := pio_size gd'\<rparr>))))"
proof (intro impI)
  assume cmd: "spi_cmd_of p (uint (pio_buffer gd 0)) \<in>
      {GD_SPI_REQ_STAT, GD_SPI_REQ_MODE, GD_SPI_REQ_ERROR, GD_SPI_GET_TOC, GD_SPI_REQ_SES,
       GD_SPI_GET_SCD, GD_SPI_REQ_SECU, GD_SPI_SET_MODE}"
    and ret: "gdrom_spi_cmd p gd arg = Inr gd'"
  have zero: "cdr_num_sectors gd' = 0"
    using cmd ret by (rule spi_transfer_result(1))
  have reads: "gdrom_pio_read p (gd'\<lparr>pio_head := h\<rparr>) 0 =
               Inr (if h = pio_size gd' then gdrom_spi_end (gd'\<lparr>pio_head := h\<rparr>)
                    else gd'\<lparr>pio_head := h\<rparr>)" for h
    using zero by (rule pio_read_exhausted_no_sectors)
  have last: "state gd' = STATE_WRITE_SPI_DATA
          \<and> (\<forall>h. 0 \<le> h \<longrightarrow> h + 2 = pio_size gd' \<longrightarrow>
                 map_sum id snd (REG_R32_GD_DATA p (gd'\<lparr>pio_head := h\<rparr>)) =
                   Inr (gdrom_spi_end (gd'\<lparr>pio_head := pio_size gd'\<rparr>)))"
    if "spi_cmd_of p (uint (pio_buffer gd 0)) \<noteq> GD_SPI_SET_MODE"
  proof -
    from spi_transfer_result(2) [OF cmd ret that]
    have st: "state gd' = STATE_WRITE_SPI_DATA" and sz: "pio_size gd' < sizeof_buffer"
      by simp_all
    show ?thesis
      using st data_read_last_word [OF zero st sz] by simp
  qed
  show "cdr_num_sectors gd' = 0
     \<and> (\<forall>h. gdrom_pio_read p (gd'\<lparr>pio_head := h\<rparr>) 0 =
               Inr (if h = pio_size gd' then gdrom_spi_end (gd'\<lparr>pio_head := h\<rparr>)
                    else gd'\<lparr>pio_head := h\<rparr>))
     \<and> (spi_cmd_of p (uint (pio_buffer gd 0)) \<noteq> GD_SPI_SET_MODE \<longrightarrow>
          state gd' = STATE_WRITE_SPI_DATA
          \<and> (\<forall>h. 0 \<le> h \<longrightarrow> h + 2 = pio_size gd' \<longrightarrow>
                 map_sum id snd (REG_R32_GD_DATA p (gd'\<lparr>pio_head := h\<rparr>)) =
                   Inr (gdrom_spi_end (gd'\<lparr>pio_head := pio_size gd'\<rparr>))))"
    using zero reads last by blast
qed

theorem spi_transfer_resets_cdread_witness:
  "spi_cmd_of example_types (uint (pio_buffer (req_ses_packet_state\<lparr>cdr_num_sectors := 3\<rparr>) 0))
     = GD_SPI_REQ_SES
   \<and> cdr_num_sectors (req_ses_packet_state\<lparr>cdr_num_sectors := 3\<rparr>) = 3
   \<and> (case gdrom_spi_cmd example_types (req_ses_packet_state\<lparr>cdr_num_sectors := 3\<rparr>) 0 of
        Inl e \<Rightarrow> Inl e
      | Inr gd' \<Rightarrow>
          map_sum id (\<lambda>r. (cdr_num_sectors gd', pio_size gd', state gd', state (snd r)))
            (REG_R32_GD_DATA example_types (gd'\<lparr>pio_head := 4\<rparr>)))
       = Inr (0, 6, STATE_WRITE_SPI_DATA, STATE_READ_ATA_CMD)"
proof -
  let ?S = "req_ses_packet_state\<lparr>cdr_num_sectors := 3\<rparr>"
  let ?gd' = "projr (gdrom_spi_cmd example_types ?S 0)"
  have ses: "spi_cmd_of example_types (uint (pio_buffer ?S 0)) = GD_SPI_REQ_SES"
    by (simp add: req_ses_packet_state_def example_types_def example_spi_cmd_of_def)
  have ret: "gdrom_spi_cmd example_types ?S 0 = Inr ?gd'"
    by (simp add: req_ses_packet_state_def example_defs gdrom_spi_cmd_def gdrom_get_session_def
        gdrom_spi_write_def gdrom_set_disc_def sizeof_buffer_def Let_def)
  have sz: "pio_size ?gd' = 6"
    by (simp add: req_ses_packet_state_def example_defs gdrom_spi_cmd_def gdrom_get_session_def
        gdrom_spi_write_def gdrom_set_disc_def sizeof_buffer_def Let_def holly_raise_interrupt_def)
  from spi_transfer_resets_cdread [of example_types ?S 0 ?gd'] ses ret
  have zero: "cdr_num_sectors ?gd' = 0"
    and st: "state ?gd' = STATE_WRITE_SPI_DATA"
    and last: "\<forall>h. 0 \<le> h \<longrightarrow> h + 2 = pio_size ?gd' \<longrightarrow>
                 map_sum id snd (REG_R32_GD_DATA example_types (?gd'\<lparr>pio_head := h\<rparr>)) =
                   Inr (gdrom_spi_end (?gd'\<lparr>pio_head := pio_size ?gd'\<rparr>))"
    by simp_all
  from last [rule_format, of 4] sz
  have "map_sum id snd (REG_R32_GD_DATA example_types (?gd'\<lparr>pio_head := 4\<rparr>)) =
          Inr (gdrom_spi_end (?gd'\<lparr>pio_head := pio_size ?gd'\<rparr>))"
    by simp
  then have "map_sum id (\<lambda>r. state (snd r)) (REG_R32_GD_DATA example_types (?gd'\<lparr>pio_head := 4\<rparr>))
          = Inr STATE_READ_ATA_CMD"
    by (cases "REG_R32_GD_DATA example_types (?gd'\<lparr>pio_head := 4\<rparr>)")
       (auto simp add: gdrom_spi_end_def)
  then have "map_sum id (\<lambda>r. (cdr_num_sectors ?gd', pio_size ?gd', state ?gd', state (snd r)))
            (REG_R32_GD_DATA example_types (?gd'\<lparr>pio_head := 4\<rparr>))
       = Inr (0, 6, STATE_WRITE_SPI_DATA, STATE_READ_ATA_CMD)"
    using zero sz st
    by (cases "REG_R32_GD_DATA example_types (?gd'\<lparr>pio_head := 4\<rparr>)") auto
  then have "(case gdrom_spi_cmd example_types ?S 0 of
        Inl e \<Rightarrow> Inl e
      | Inr gd' \<Rightarrow>
          map_sum id (\<lambda>r. (cdr_num_sectors gd', pio_size gd', state gd', state (snd r)))
            (REG_R32_GD_DATA example_types (gd'\<lparr>pio_head := 4\<rparr>)))
       = Inr (0, 6, STATE_WRITE_SPI_DATA, STATE_READ_ATA_CMD)"
    by (subst ret) simp
  with ses show ?thesis by simp
qed

subsection \<open>The end of a DMA read\<close>

text \<open>
  C1 fails on the code. \<^verbatim>\<open>gdrom_dma_read\<close> ends the packet command whenever the DMA
  buffer is exhausted after the copy, and does not look at the remaining sector count.
  In the DMA \<^verbatim>\<open>CD_READ\<close> of 28 sectors of the examples, read 2352 bytes at a time: after
  23 reads the first chunk of 27 sectors is not yet exhausted, the state is
  \<^verbatim>\<open>STATE_WRITE_DMA_DATA\<close> and no interrupt has been raised. The 24th read exhausts the
  buffer while one sector remains, and the controller is in \<^verbatim>\<open>STATE_READ_ATA_CMD\<close> with
  \<open>DRDY\<close> set, \<open>DRQ\<close> and \<open>BSY\<close> clear and the interrupt raised. The 25th read refills
  the buffer with the last sector and ends the command a second time.
\<close>

theorem dma_read_completes_with_sectors_remaining:
  "map_sum id (\<lambda>gd. (state gd, cdr_num_sectors gd, dma_head gd, dma_size gd, holly_raised gd))
     (gdrom_run example_types (gdrom_create example_types)
        (example_cd_read_dma @ replicate 23 (DMA_READ 2352)))
     = Inr (STATE_WRITE_DMA_DATA, 1, 54096, 55296, 0)
   \<and> map_sum id (\<lambda>gd. (state gd, cdr_num_sectors gd, dma_head gd, dma_size gd, holly_raised gd,
                       holly_G1GDINT gd, status gd, ireason gd))
     (gdrom_run example_types (gdrom_create example_types)
        (example_cd_read_dma @ replicate 24 (DMA_READ 2352)))
     = Inr (STATE_READ_ATA_CMD, 1, 55296, 55296, 1, True,
            \<lparr>CHECK = False, DRQ = False, DRDY = True, BSY = False\<rparr>, \<lparr>CoD = True, IO = True\<rparr>)
   \<and> map_sum id (\<lambda>gd. (state gd, cdr_num_sectors gd, dma_head gd, dma_size gd, holly_raised gd))
     (gdrom_run example_types (gdrom_create example_types)
        (example_cd_read_dma @ replicate 25 (DMA_READ 2352)))
     = Inr (STATE_READ_ATA_CMD, 0, 2048, 2048, 2)"
proof (intro conjI)
  note defs = example_cd_read_dma_def example_defs gdrom_set_disc_def gdrom_ata_cmd_def
    holly_raise_interrupt_def gdrom_spi_end_def gdrom_spi_cmd_def gdrom_spi_cdread_def
    gdrom_read_sectors_def gd_transitions_at_def gd_transitions_def GD_SPI_CMD_SIZE_def
    sizeof_buffer_def REG_W32_GD_STATUS_COMMAND_def REG_W32_GD_DATA_def
    REG_W32_GD_ERROR_FEATURES_def gdrom_dma_begin_def gdrom_get_fad_def dma_read_state
    read_sectors_loop_numeral length_example_sector Let_def replicate_numeral_Cons
  show "map_sum id (\<lambda>gd. (state gd, cdr_num_sectors gd, dma_head gd, dma_size gd, holly_raised gd))
     (gdrom_run example_types (gdrom_create example_types)
        (example_cd_read_dma @ replicate 23 (DMA_READ 2352)))
     = Inr (STATE_WRITE_DMA_DATA, 1, 54096, 55296, 0)"
    by (simp add: defs)
  show "map_sum id (\<lambda>gd. (state gd, cdr_num_sectors gd, dma_head gd, dma_size gd, holly_raised gd,
                       holly_G1GDINT gd, status gd, ireason gd))
     (gdrom_run example_types (gdrom_create example_types)
        (example_cd_read_dma @ replicate 24 (DMA_READ 2352)))
     = Inr (STATE_READ_ATA_CMD, 1, 55296, 55296, 1, True,
            \<lparr>CHECK = False, DRQ = False, DRDY = True, BSY = False\<rparr>, \<lparr>CoD = True, IO = True\<rparr>)"
    by (simp add: defs)
  show "map_sum id (\<lambda>gd. (state gd, cdr_num_sectors gd, dma_head gd, dma_size gd, holly_raised gd))
     (gdrom_run example_types (gdrom_create example_types)
        (example_cd_read_dma @ replicate 25 (DMA_READ 2352)))
     = Inr (STATE_READ_ATA_CMD, 0, 2048, 2048, 2)"
    by (simp add: defs)
qed

subsection \<open>The chunks of a CD_READ\<close>

text \<open>
  C4. Take a controller whose disc, if one is attached, has sectors that fit
  \<^verbatim>\<open>DISC_MAX_SECTOR_SIZE\<close>, a buffer that holds \<open>C \<ge> 1\<close> sectors and a remaining sector
  count \<open>R > 0\<close>. Every run of \<open>j\<close> chunks succeeds and leaves the remaining count
  \<open>R - min R (j * C)\<close> and the first sector advanced by \<open>min R (j * C)\<close>; the count is 0
  exactly when \<open>j\<close> is at least \<open>\<lceil>R / C\<rceil>\<close>, so the count reaches 0 with chunk number
  \<open>\<lceil>R / C\<rceil>\<close> and not before. The next chunk succeeds too: it fills the buffer with
  exactly the \<open>min remaining C\<close> sectors of the disc from the first-sector address, and
  advances the address and lowers the count by that number.
\<close>

theorem cdread_chunk_count:
  assumes "\<forall>d fad. disc gd = Some d \<longrightarrow>
             int (length (disc_read_sector d fad (cdr_secfmt gd) (cdr_secmask gd)))
               \<le> DISC_MAX_SECTOR_SIZE p"
    and "0 < DISC_MAX_SECTOR_SIZE p"
    and "DISC_MAX_SECTOR_SIZE p \<le> sizeof_buffer"
    and "0 < cdr_num_sectors gd"
  shows "\<exists>gd' gd''.
           cdread_chunks p j gd = Inr gd'
           \<and> cdr_num_sectors gd' =
               cdr_num_sectors gd - min (cdr_num_sectors gd) (int j * buffer_sectors p)
           \<and> cdr_first_sector gd' =
               cdr_first_sector gd + min (cdr_num_sectors gd) (int j * buffer_sectors p)
           \<and> (cdr_num_sectors gd' = 0 \<longleftrightarrow>
                nat \<lceil>real_of_int (cdr_num_sectors gd) / real_of_int (buffer_sectors p)\<rceil> \<le> j)
           \<and> gdrom_spi_cdread p gd' = Inr gd''
           \<and> target_bytes gd'' =
               chunk_sectors (disc gd) (cdr_secfmt gd) (cdr_secmask gd) (cdr_first_sector gd')
                 (min (cdr_num_sectors gd') (buffer_sectors p))
           \<and> cdr_first_sector gd'' =
               cdr_first_sector gd' + min (cdr_num_sectors gd') (buffer_sectors p)
           \<and> cdr_num_sectors gd'' =
               cdr_num_sectors gd' - min (cdr_num_sectors gd') (buffer_sectors p)"
proof -
  let ?R = "cdr_num_sectors gd" and ?C = "buffer_sectors p"
  have C: "0 < ?C"
    using assms(2,3) by (simp add: buffer_sectors_def pos_imp_zdiv_pos_iff)
  have "0 \<le> ?R"
    using assms(4) by simp
  from cdread_chunks_state [OF assms(1,2) this, of j] obtain g where
    g: "cdread_chunks p j gd = Inr g"
    and g1: "cdr_first_sector g = cdr_first_sector gd + min ?R (int j * ?C)"
    and g2: "cdr_num_sectors g = ?R - min ?R (int j * ?C)"
    and g3: "disc g = disc gd" "cdr_secfmt g = cdr_secfmt gd" "cdr_secmask g = cdr_secmask gd"
    by blast
  have fitg: "\<forall>d fad. disc g = Some d \<longrightarrow>
                int (length (disc_read_sector d fad (cdr_secfmt g) (cdr_secmask g)))
                  \<le> DISC_MAX_SECTOR_SIZE p"
    using assms(1) g3 by simp
  from cdread_chunk [OF fitg assms(2)] obtain g' where
    g': "gdrom_spi_cdread p g = Inr g'"
    and h1: "cdr_first_sector g' = cdr_first_sector g + min (cdr_num_sectors g) ?C"
    and h2: "cdr_num_sectors g' = cdr_num_sectors g - min (cdr_num_sectors g) ?C"
    and h3: "target_bytes g' =
               chunk_sectors (disc g) (cdr_secfmt g) (cdr_secmask g) (cdr_first_sector g)
                 (min (cdr_num_sectors g) ?C)"
    by blast
  have fin: "cdr_num_sectors g = 0 \<longleftrightarrow> nat \<lceil>real_of_int ?R / real_of_int ?C\<rceil> \<le> j"
    unfolding g2 using C by (rule chunks_needed)
  show ?thesis
    using g g1 g2 fin g' h1 h2 h3 g3 by auto
qed

theorem cdread_chunk_count_witness:
  "disc example_cd_read_state = Some example_disc
   \<and> (\<forall>fad. int (length (disc_read_sector example_disc fad
          (cdr_secfmt example_cd_read_state) (cdr_secmask example_cd_read_state)))
        \<le> DISC_MAX_SECTOR_SIZE example_types)
   \<and> 0 < DISC_MAX_SECTOR_SIZE example_types
   \<and> DISC_MAX_SECTOR_SIZE example_types \<le> sizeof_buffer
   \<and> cdr_num_sectors example_cd_read_state = 28
   \<and> buffer_sectors example_types = 27
   \<and> nat \<lceil>real_of_int 28 / real_of_int 27\<rceil> = 2
   \<and> map_sum id (\<lambda>gd. (cdr_num_sectors gd, cdr_first_sector gd))
         (cdread_chunks example_types 1 example_cd_read_state) = Inr (1, 177)
   \<and> map_sum id (\<lambda>gd. (cdr_num_sectors gd, cdr_first_sector gd))
         (cdread_chunks example_types 2 example_cd_read_state) = Inr (0, 178)"
proof -
  let ?S = example_cd_read_state
  have d: "disc ?S = Some example_disc"
    by (simp add: example_cd_read_state_def gdrom_set_disc_def Let_def)
  have fit: "\<forall>fad. int (length (disc_read_sector example_disc fad (cdr_secfmt ?S) (cdr_secmask ?S)))
               \<le> DISC_MAX_SECTOR_SIZE example_types"
    by (simp add: example_disc_def example_types_def length_example_sector)
  have fit': "\<forall>d fad. disc ?S = Some d \<longrightarrow>
               int (length (disc_read_sector d fad (cdr_secfmt ?S) (cdr_secmask ?S)))
                 \<le> DISC_MAX_SECTOR_SIZE example_types"
    using d fit by simp
  have pos: "0 < DISC_MAX_SECTOR_SIZE example_types"
    and le: "DISC_MAX_SECTOR_SIZE example_types \<le> sizeof_buffer"
    by (simp_all add: example_types_def sizeof_buffer_def)
  have R: "cdr_num_sectors ?S = 28" and F: "cdr_first_sector ?S = 150"
    by (simp_all add: example_cd_read_state_def)
  have R0: "0 < cdr_num_sectors ?S"
    using R by simp
  have C: "buffer_sectors example_types = 27"
    by (simp add: buffer_sectors_def example_types_def sizeof_buffer_def)
  have ceil: "nat \<lceil>real_of_int 28 / real_of_int 27\<rceil> = 2"
    by (simp add: ceiling_eq_iff)
  from cdread_chunk_count [OF fit' pos le R0, of 1] obtain g1 where
    g1: "cdread_chunks example_types 1 ?S = Inr g1"
      "cdr_num_sectors g1 = cdr_num_sectors ?S - min (cdr_num_sectors ?S) (int 1 * buffer_sectors example_types)"
      "cdr_first_sector g1 = cdr_first_sector ?S + min (cdr_num_sectors ?S) (int 1 * buffer_sectors example_types)"
    by blast
  from cdread_chunk_count [OF fit' pos le R0, of 2] obtain g2 where
    g2: "cdread_chunks example_types 2 ?S = Inr g2"
      "cdr_num_sectors g2 = cdr_num_sectors ?S - min (cdr_num_sectors ?S) (int 2 * buffer_sectors example_types)"
      "cdr_first_sector g2 = cdr_first_sector ?S + min (cdr_num_sectors ?S) (int 2 * buffer_sectors example_types)"
    by blast
  have c1: "map_sum id (\<lambda>gd. (cdr_num_sectors gd, cdr_first_sector gd))
         (cdread_chunks example_types 1 ?S) = Inr (1, 177)"
    using g1 R F C by simp
  have c2: "map_sum id (\<lambda>gd. (cdr_num_sectors gd, cdr_first_sector gd))
         (cdread_chunks example_types 2 ?S) = Inr (0, 178)"
    using g2 R F C by simp
  show ?thesis
    using d fit pos le R C ceil c1 c2 by blast
qed

subsection \<open>The bounds of the buffers\<close>




end
